theory Spec2Isabelle
  imports Complex_Main
begin

section \<open>The relational schema of models.py\<close>

text \<open>
  models.py declares seven SQLAlchemy models. Each model becomes a record whose
  fields are the declared columns, in the order of the source. A Python attribute
  may be \<open>None\<close> (the column is NULL, or was not supplied), so every column is an
  \<open>option\<close>; what the schema forbids is forbidden by the constraints further down,
  as in the source, not by the types. Field names carry the model's name as a prefix,
  since several models declare columns of the same name (\<open>id\<close>, \<open>patient_id\<close>,
  \<open>status\<close>, \<open>created_at\<close>).

  Column lengths (\<open>String(80)\<close>) and the width of \<open>Integer\<close> are not modelled:
  strings are \<open>string\<close>, integers are \<open>int\<close>.
\<close>

type_synonym uuid = nat
type_synonym datetime = int
type_synonym date = int

text \<open>
  A \<open>Float\<close> column holds a double: a finite value, an infinity or NaN. Only the
  order matters here, and the finite values are taken as reals.
\<close>

datatype float8 = Finite real | PosInf | NegInf | NaN

text \<open>A JSONB document.\<close>

datatype json = JNull | JBool bool | JNum real | JStr string
  | JArr "json list" | JObj "(string \<times> json) list"

record user =
  user_id :: "uuid option"
  user_username :: "string option"
  user_email :: "string option"
  user_password_hash :: "string option"
  user_first_name :: "string option"
  user_last_name :: "string option"
  user_role :: "string option"
  user_is_active :: "bool option"
  user_is_verified :: "bool option"
  user_created_at :: "datetime option"
  user_updated_at :: "datetime option"
  user_last_login :: "datetime option"

record patient =
  patient_id :: "uuid option"
  patient_mrn :: "string option"
  patient_first_name :: "string option"
  patient_last_name :: "string option"
  patient_date_of_birth :: "date option"
  patient_gender :: "string option"
  patient_phone :: "string option"
  patient_email :: "string option"
  patient_address :: "string option"
  patient_city :: "string option"
  patient_state :: "string option"
  patient_zip_code :: "string option"
  patient_emergency_contact :: "string option"
  patient_emergency_phone :: "string option"
  patient_insurance_id :: "string option"
  patient_comorbidities :: "string list option"
  patient_allergies :: "string list option"
  patient_current_medications :: "json option"
  patient_admission_date :: "datetime option"
  patient_discharge_date :: "datetime option"
  patient_is_active :: "bool option"
  patient_created_at :: "datetime option"
  patient_updated_at :: "datetime option"

record vital =
  vital_id :: "uuid option"
  vital_patient_id :: "uuid option"
  vital_measurement_time :: "datetime option"
  vital_heart_rate :: "int option"
  vital_systolic_bp :: "int option"
  vital_diastolic_bp :: "int option"
  vital_respiratory_rate :: "int option"
  vital_temperature :: "float8 option"
  vital_oxygen_saturation :: "float8 option"
  vital_blood_glucose :: "float8 option"
  vital_weight :: "float8 option"
  vital_created_at :: "datetime option"

record lab_result =
  lab_id :: "uuid option"
  lab_patient_id :: "uuid option"
  lab_test_name :: "string option"
  lab_test_value :: "float8 option"
  lab_unit :: "string option"
  lab_reference_low :: "float8 option"
  lab_reference_high :: "float8 option"
  lab_test_date :: "datetime option"
  lab_lab_name :: "string option"
  lab_status :: "string option"
  lab_notes :: "string option"
  lab_created_at :: "datetime option"

record risk_assessment =
  risk_id :: "uuid option"
  risk_patient_id :: "uuid option"
  risk_assessment_date :: "datetime option"
  risk_risk_score :: "float8 option"
  risk_risk_category :: "string option"
  risk_clinical_factors :: "json option"
  risk_alert_triggered :: "bool option"
  risk_alert_message :: "string option"
  risk_assessment_type :: "string option"
  risk_created_by :: "uuid option"
  risk_created_at :: "datetime option"

record alert =
  alert_id :: "uuid option"
  alert_patient_id :: "uuid option"
  alert_alert_type :: "string option"
  alert_title :: "string option"
  alert_message :: "string option"
  alert_severity :: "string option"
  alert_status :: "string option"
  alert_acknowledged_by :: "uuid option"
  alert_acknowledged_at :: "datetime option"
  alert_resolved_at :: "datetime option"
  alert_created_at :: "datetime option"

record intervention =
  intervention_id :: "uuid option"
  intervention_patient_id :: "uuid option"
  intervention_intervention_type :: "string option"
  intervention_description :: "string option"
  intervention_intervention_date :: "datetime option"
  intervention_outcome :: "string option"
  intervention_clinician_id :: "uuid option"
  intervention_notes :: "string option"
  intervention_created_at :: "datetime option"

text \<open>The database: one table per model, named by \<open>__tablename__\<close>.\<close>

record store =
  users :: "user list"
  patients :: "patient list"
  vital_signs :: "vital list"
  lab_results :: "lab_result list"
  risk_assessments :: "risk_assessment list"
  alerts :: "alert list"
  interventions :: "intervention list"

definition empty_store :: store where
  "empty_store = \<lparr>users = [], patients = [], vital_signs = [], lab_results = [],
     risk_assessments = [], alerts = [], interventions = []\<rparr>"


section \<open>Constraints as the relational engine evaluates them\<close>

text \<open>
  The statements of a \<open>CheckConstraint\<close> are SQL conditions: a comparison with NULL
  is unknown (\<open>None\<close>), \<open>AND\<close> is three-valued, and a CHECK constraint rejects a row
  only when its condition is false.
\<close>

definition sql_cmp :: "('a \<Rightarrow> 'a \<Rightarrow> bool) \<Rightarrow> 'a option \<Rightarrow> 'a \<Rightarrow> bool option" where
  "sql_cmp rel col lit = (case col of None \<Rightarrow> None | Some x \<Rightarrow> Some (rel x lit))"

definition sql_and :: "bool option \<Rightarrow> bool option \<Rightarrow> bool option" where
  "sql_and a b =
     (if a = Some False \<or> b = Some False then Some False
      else if a = None \<or> b = None then None
      else Some True)"

definition check_passes :: "bool option \<Rightarrow> bool" where
  "check_passes c = (c \<noteq> Some False)"

text \<open>
  The order of doubles in PostgreSQL, the engine models.py is written for (its
  \<open>UUID\<close>, \<open>JSONB\<close> and \<open>ARRAY\<close> columns): NaN equals itself and is above every
  other value.
\<close>

fun float8_le :: "float8 \<Rightarrow> float8 \<Rightarrow> bool" where
  "float8_le x NaN = True"
| "float8_le NaN y = False"
| "float8_le NegInf y = True"
| "float8_le x NegInf = False"
| "float8_le x PosInf = True"
| "float8_le PosInf y = False"
| "float8_le (Finite a) (Finite b) = (a \<le> b)"

definition float8_ge :: "float8 \<Rightarrow> float8 \<Rightarrow> bool" where
  "float8_ge x y = float8_le y x"

text \<open>
  \<open>unique=True\<close> and \<open>primary_key=True\<close>: no other row holds the same non-NULL
  value. \<open>db.ForeignKey\<close>: a non-NULL reference is the key of a row of the
  referenced table.
\<close>

definition unique_among :: "('r \<Rightarrow> 'a option) \<Rightarrow> 'r list \<Rightarrow> 'r \<Rightarrow> bool" where
  "unique_among col rows r = (col r = None \<or> col r \<notin> set (map col rows))"

definition references :: "'a option list \<Rightarrow> 'a option \<Rightarrow> bool" where
  "references keys ref = (ref = None \<or> ref \<in> set keys)"

text \<open>
  \<open>default=\<close>: the ORM leaves an attribute that is \<open>None\<close> out of the INSERT, and
  the column's default takes its place.
\<close>

definition or_default :: "'a option \<Rightarrow> 'a \<Rightarrow> 'a option" where
  "or_default x d = (case x of None \<Rightarrow> Some d | Some v \<Rightarrow> Some v)"

text \<open>
  What the engine reports: the four integrity errors, and an UPDATE by primary key
  that finds no row.
\<close>

datatype db_error = NotNullViolation | CheckViolation | UniqueViolation
  | ForeignKeyViolation | StaleData

subsection \<open>users\<close>

text \<open>
  The callable defaults \<open>uuid.uuid4\<close> and \<open>datetime.utcnow\<close> are the arguments
  \<open>fresh\<close> and \<open>now\<close> of every insert.
\<close>

definition user_defaults :: "datetime \<Rightarrow> uuid \<Rightarrow> user \<Rightarrow> user" where
  "user_defaults now fresh u = u
     \<lparr>user_id := or_default (user_id u) fresh,
      user_role := or_default (user_role u) ''viewer'',
      user_is_active := or_default (user_is_active u) True,
      user_is_verified := or_default (user_is_verified u) False,
      user_created_at := or_default (user_created_at u) now,
      user_updated_at := or_default (user_updated_at u) now\<rparr>"

definition user_not_null :: "user \<Rightarrow> bool" where
  "user_not_null u =
     (user_id u \<noteq> None \<and> user_username u \<noteq> None \<and> user_email u \<noteq> None
      \<and> user_password_hash u \<noteq> None)"

definition user_unique :: "user list \<Rightarrow> user \<Rightarrow> bool" where
  "user_unique rows u =
     (unique_among user_id rows u \<and> unique_among user_username rows u
      \<and> unique_among user_email rows u)"

definition insert_user :: "datetime \<Rightarrow> uuid \<Rightarrow> user \<Rightarrow> store \<Rightarrow> db_error + store" where
  "insert_user now fresh u0 s =
     (let u = user_defaults now fresh u0 in
      if \<not> user_not_null u then Inl NotNullViolation
      else if \<not> user_unique (users s) u then Inl UniqueViolation
      else Inr (s\<lparr>users := users s @ [u]\<rparr>))"

subsection \<open>patients\<close>

text \<open>
  A JSONB attribute set to \<open>None\<close> is stored as the JSON null (\<open>Some JNull\<close> here);
  \<open>None\<close> is the attribute that was never set.
\<close>

definition patient_defaults :: "datetime \<Rightarrow> uuid \<Rightarrow> patient \<Rightarrow> patient" where
  "patient_defaults now fresh p = p
     \<lparr>patient_id := or_default (patient_id p) fresh,
      patient_comorbidities := or_default (patient_comorbidities p) [],
      patient_allergies := or_default (patient_allergies p) [],
      patient_current_medications := or_default (patient_current_medications p) (JObj []),
      patient_is_active := or_default (patient_is_active p) True,
      patient_created_at := or_default (patient_created_at p) now,
      patient_updated_at := or_default (patient_updated_at p) now\<rparr>"

definition patient_not_null :: "patient \<Rightarrow> bool" where
  "patient_not_null p =
     (patient_id p \<noteq> None \<and> patient_mrn p \<noteq> None \<and> patient_first_name p \<noteq> None
      \<and> patient_last_name p \<noteq> None \<and> patient_date_of_birth p \<noteq> None
      \<and> patient_gender p \<noteq> None)"

definition patient_unique :: "patient list \<Rightarrow> patient \<Rightarrow> bool" where
  "patient_unique rows p =
     (unique_among patient_id rows p \<and> unique_among patient_mrn rows p)"

definition insert_patient :: "datetime \<Rightarrow> uuid \<Rightarrow> patient \<Rightarrow> store \<Rightarrow> db_error + store" where
  "insert_patient now fresh p0 s =
     (let p = patient_defaults now fresh p0 in
      if \<not> patient_not_null p then Inl NotNullViolation
      else if \<not> patient_unique (patients s) p then Inl UniqueViolation
      else Inr (s\<lparr>patients := patients s @ [p]\<rparr>))"

subsection \<open>vital_signs\<close>

definition vital_defaults :: "datetime \<Rightarrow> uuid \<Rightarrow> vital \<Rightarrow> vital" where
  "vital_defaults now fresh v = v
     \<lparr>vital_id := or_default (vital_id v) fresh,
      vital_measurement_time := or_default (vital_measurement_time v) now,
      vital_created_at := or_default (vital_created_at v) now\<rparr>"

definition vital_not_null :: "vital \<Rightarrow> bool" where
  "vital_not_null v =
     (vital_id v \<noteq> None \<and> vital_patient_id v \<noteq> None \<and> vital_measurement_time v \<noteq> None)"

text \<open>
  \<^verbatim>\<open>CheckConstraint('heart_rate >= 0 AND heart_rate <= 300')\<close>,
  \<^verbatim>\<open>CheckConstraint('systolic_bp >= 50 AND systolic_bp <= 300')\<close>,
  \<^verbatim>\<open>CheckConstraint('diastolic_bp >= 30 AND diastolic_bp <= 200')\<close>.
\<close>

definition vital_check_heart_rate :: "vital \<Rightarrow> bool" where
  "vital_check_heart_rate v =
     check_passes (sql_and (sql_cmp (\<ge>) (vital_heart_rate v) 0)
                           (sql_cmp (\<le>) (vital_heart_rate v) 300))"

definition vital_check_systolic_bp :: "vital \<Rightarrow> bool" where
  "vital_check_systolic_bp v =
     check_passes (sql_and (sql_cmp (\<ge>) (vital_systolic_bp v) 50)
                           (sql_cmp (\<le>) (vital_systolic_bp v) 300))"

definition vital_check_diastolic_bp :: "vital \<Rightarrow> bool" where
  "vital_check_diastolic_bp v =
     check_passes (sql_and (sql_cmp (\<ge>) (vital_diastolic_bp v) 30)
                           (sql_cmp (\<le>) (vital_diastolic_bp v) 200))"

definition vital_checks :: "vital \<Rightarrow> bool" where
  "vital_checks v =
     (vital_check_heart_rate v \<and> vital_check_systolic_bp v \<and> vital_check_diastolic_bp v)"

definition insert_vital :: "datetime \<Rightarrow> uuid \<Rightarrow> vital \<Rightarrow> store \<Rightarrow> db_error + store" where
  "insert_vital now fresh v0 s =
     (let v = vital_defaults now fresh v0 in
      if \<not> vital_not_null v then Inl NotNullViolation
      else if \<not> vital_checks v then Inl CheckViolation
      else if \<not> unique_among vital_id (vital_signs s) v then Inl UniqueViolation
      else if \<not> references (map patient_id (patients s)) (vital_patient_id v)
        then Inl ForeignKeyViolation
      else Inr (s\<lparr>vital_signs := vital_signs s @ [v]\<rparr>))"

subsection \<open>lab_results\<close>

definition lab_result_defaults :: "datetime \<Rightarrow> uuid \<Rightarrow> lab_result \<Rightarrow> lab_result" where
  "lab_result_defaults now fresh l = l
     \<lparr>lab_id := or_default (lab_id l) fresh,
      lab_status := or_default (lab_status l) ''pending'',
      lab_created_at := or_default (lab_created_at l) now\<rparr>"

definition lab_result_not_null :: "lab_result \<Rightarrow> bool" where
  "lab_result_not_null l =
     (lab_id l \<noteq> None \<and> lab_patient_id l \<noteq> None \<and> lab_test_name l \<noteq> None
      \<and> lab_test_date l \<noteq> None)"

definition insert_lab_result ::
  "datetime \<Rightarrow> uuid \<Rightarrow> lab_result \<Rightarrow> store \<Rightarrow> db_error + store" where
  "insert_lab_result now fresh l0 s =
     (let l = lab_result_defaults now fresh l0 in
      if \<not> lab_result_not_null l then Inl NotNullViolation
      else if \<not> unique_among lab_id (lab_results s) l then Inl UniqueViolation
      else if \<not> references (map patient_id (patients s)) (lab_patient_id l)
        then Inl ForeignKeyViolation
      else Inr (s\<lparr>lab_results := lab_results s @ [l]\<rparr>))"

subsection \<open>risk_assessments\<close>

definition risk_assessment_defaults ::
  "datetime \<Rightarrow> uuid \<Rightarrow> risk_assessment \<Rightarrow> risk_assessment" where
  "risk_assessment_defaults now fresh r = r
     \<lparr>risk_id := or_default (risk_id r) fresh,
      risk_assessment_date := or_default (risk_assessment_date r) now,
      risk_clinical_factors := or_default (risk_clinical_factors r) (JObj []),
      risk_alert_triggered := or_default (risk_alert_triggered r) False,
      risk_created_at := or_default (risk_created_at r) now\<rparr>"

definition risk_assessment_not_null :: "risk_assessment \<Rightarrow> bool" where
  "risk_assessment_not_null r =
     (risk_id r \<noteq> None \<and> risk_patient_id r \<noteq> None \<and> risk_assessment_date r \<noteq> None
      \<and> risk_risk_score r \<noteq> None)"

text \<open>\<^verbatim>\<open>CheckConstraint('risk_score >= 0 AND risk_score <= 100')\<close>.\<close>

definition risk_assessment_checks :: "risk_assessment \<Rightarrow> bool" where
  "risk_assessment_checks r =
     check_passes (sql_and (sql_cmp float8_ge (risk_risk_score r) (Finite 0))
                           (sql_cmp float8_le (risk_risk_score r) (Finite 100)))"

definition insert_risk_assessment ::
  "datetime \<Rightarrow> uuid \<Rightarrow> risk_assessment \<Rightarrow> store \<Rightarrow> db_error + store" where
  "insert_risk_assessment now fresh r0 s =
     (let r = risk_assessment_defaults now fresh r0 in
      if \<not> risk_assessment_not_null r then Inl NotNullViolation
      else if \<not> risk_assessment_checks r then Inl CheckViolation
      else if \<not> unique_among risk_id (risk_assessments s) r then Inl UniqueViolation
      else if \<not> (references (map patient_id (patients s)) (risk_patient_id r)
                \<and> references (map user_id (users s)) (risk_created_by r))
        then Inl ForeignKeyViolation
      else Inr (s\<lparr>risk_assessments := risk_assessments s @ [r]\<rparr>))"

subsection \<open>alerts\<close>

definition alert_defaults :: "datetime \<Rightarrow> uuid \<Rightarrow> alert \<Rightarrow> alert" where
  "alert_defaults now fresh a = a
     \<lparr>alert_id := or_default (alert_id a) fresh,
      alert_status := or_default (alert_status a) ''active'',
      alert_created_at := or_default (alert_created_at a) now\<rparr>"

definition alert_not_null :: "alert \<Rightarrow> bool" where
  "alert_not_null a =
     (alert_id a \<noteq> None \<and> alert_patient_id a \<noteq> None \<and> alert_alert_type a \<noteq> None
      \<and> alert_title a \<noteq> None)"

definition insert_alert :: "datetime \<Rightarrow> uuid \<Rightarrow> alert \<Rightarrow> store \<Rightarrow> db_error + store" where
  "insert_alert now fresh a0 s =
     (let a = alert_defaults now fresh a0 in
      if \<not> alert_not_null a then Inl NotNullViolation
      else if \<not> unique_among alert_id (alerts s) a then Inl UniqueViolation
      else if \<not> (references (map patient_id (patients s)) (alert_patient_id a)
                \<and> references (map user_id (users s)) (alert_acknowledged_by a))
        then Inl ForeignKeyViolation
      else Inr (s\<lparr>alerts := alerts s @ [a]\<rparr>))"

subsection \<open>interventions\<close>

definition intervention_defaults :: "datetime \<Rightarrow> uuid \<Rightarrow> intervention \<Rightarrow> intervention" where
  "intervention_defaults now fresh i = i
     \<lparr>intervention_id := or_default (intervention_id i) fresh,
      intervention_created_at := or_default (intervention_created_at i) now\<rparr>"

definition intervention_not_null :: "intervention \<Rightarrow> bool" where
  "intervention_not_null i =
     (intervention_id i \<noteq> None \<and> intervention_patient_id i \<noteq> None
      \<and> intervention_intervention_type i \<noteq> None
      \<and> intervention_intervention_date i \<noteq> None)"

definition insert_intervention ::
  "datetime \<Rightarrow> uuid \<Rightarrow> intervention \<Rightarrow> store \<Rightarrow> db_error + store" where
  "insert_intervention now fresh i0 s =
     (let i = intervention_defaults now fresh i0 in
      if \<not> intervention_not_null i then Inl NotNullViolation
      else if \<not> unique_among intervention_id (interventions s) i then Inl UniqueViolation
      else if \<not> (references (map patient_id (patients s)) (intervention_patient_id i)
                \<and> references (map user_id (users s)) (intervention_clinician_id i))
        then Inl ForeignKeyViolation
      else Inr (s\<lparr>interventions := interventions s @ [i]\<rparr>))"


subsection \<open>UPDATE by primary key\<close>

text \<open>
  The ORM writes a changed object back with \<open>UPDATE ... WHERE id = :id\<close>: the row
  of that key takes the object's attributes, \<open>None\<close> as NULL (defaults belong to
  INSERT), and the engine checks the new row as it checks an inserted one, against the
  other rows. The key itself stays. \<open>onupdate=datetime.utcnow\<close> sets \<open>updated_at\<close>
  unless the object changed it itself.
\<close>

definition replace_row :: "('r \<Rightarrow> uuid option) \<Rightarrow> uuid \<Rightarrow> 'r \<Rightarrow> 'r list \<Rightarrow> 'r list" where
  "replace_row key i r rows = map (\<lambda>x. if key x = Some i then r else x) rows"

definition other_rows :: "('r \<Rightarrow> uuid option) \<Rightarrow> uuid \<Rightarrow> 'r list \<Rightarrow> 'r list" where
  "other_rows key i rows = filter (\<lambda>x. key x \<noteq> Some i) rows"

definition update_user :: "datetime \<Rightarrow> uuid \<Rightarrow> user \<Rightarrow> store \<Rightarrow> db_error + store" where
  "update_user now i u0 s =
     (case find (\<lambda>x. user_id x = Some i) (users s) of
        None \<Rightarrow> Inl StaleData
      | Some old \<Rightarrow>
          (let u = u0\<lparr>user_id := Some i,
                      user_updated_at :=
                        (if user_updated_at u0 = user_updated_at old then Some now
                         else user_updated_at u0)\<rparr> in
           if \<not> user_not_null u then Inl NotNullViolation
           else if \<not> user_unique (other_rows user_id i (users s)) u then Inl UniqueViolation
           else Inr (s\<lparr>users := replace_row user_id i u (users s)\<rparr>)))"

definition update_patient :: "datetime \<Rightarrow> uuid \<Rightarrow> patient \<Rightarrow> store \<Rightarrow> db_error + store" where
  "update_patient now i p0 s =
     (case find (\<lambda>x. patient_id x = Some i) (patients s) of
        None \<Rightarrow> Inl StaleData
      | Some old \<Rightarrow>
          (let p = p0\<lparr>patient_id := Some i,
                      patient_updated_at :=
                        (if patient_updated_at p0 = patient_updated_at old then Some now
                         else patient_updated_at p0)\<rparr> in
           if \<not> patient_not_null p then Inl NotNullViolation
           else if \<not> patient_unique (other_rows patient_id i (patients s)) p
             then Inl UniqueViolation
           else Inr (s\<lparr>patients := replace_row patient_id i p (patients s)\<rparr>)))"

definition update_vital :: "uuid \<Rightarrow> vital \<Rightarrow> store \<Rightarrow> db_error + store" where
  "update_vital i v0 s =
     (let v = v0\<lparr>vital_id := Some i\<rparr> in
      if Some i \<notin> set (map vital_id (vital_signs s)) then Inl StaleData
      else if \<not> vital_not_null v then Inl NotNullViolation
      else if \<not> vital_checks v then Inl CheckViolation
      else if \<not> references (map patient_id (patients s)) (vital_patient_id v)
        then Inl ForeignKeyViolation
      else Inr (s\<lparr>vital_signs := replace_row vital_id i v (vital_signs s)\<rparr>))"

definition update_lab_result :: "uuid \<Rightarrow> lab_result \<Rightarrow> store \<Rightarrow> db_error + store" where
  "update_lab_result i l0 s =
     (let l = l0\<lparr>lab_id := Some i\<rparr> in
      if Some i \<notin> set (map lab_id (lab_results s)) then Inl StaleData
      else if \<not> lab_result_not_null l then Inl NotNullViolation
      else if \<not> references (map patient_id (patients s)) (lab_patient_id l)
        then Inl ForeignKeyViolation
      else Inr (s\<lparr>lab_results := replace_row lab_id i l (lab_results s)\<rparr>))"

definition update_risk_assessment ::
  "uuid \<Rightarrow> risk_assessment \<Rightarrow> store \<Rightarrow> db_error + store" where
  "update_risk_assessment i r0 s =
     (let r = r0\<lparr>risk_id := Some i\<rparr> in
      if Some i \<notin> set (map risk_id (risk_assessments s)) then Inl StaleData
      else if \<not> risk_assessment_not_null r then Inl NotNullViolation
      else if \<not> risk_assessment_checks r then Inl CheckViolation
      else if \<not> (references (map patient_id (patients s)) (risk_patient_id r)
                \<and> references (map user_id (users s)) (risk_created_by r))
        then Inl ForeignKeyViolation
      else Inr (s\<lparr>risk_assessments := replace_row risk_id i r (risk_assessments s)\<rparr>))"

definition update_alert :: "uuid \<Rightarrow> alert \<Rightarrow> store \<Rightarrow> db_error + store" where
  "update_alert i a0 s =
     (let a = a0\<lparr>alert_id := Some i\<rparr> in
      if Some i \<notin> set (map alert_id (alerts s)) then Inl StaleData
      else if \<not> alert_not_null a then Inl NotNullViolation
      else if \<not> (references (map patient_id (patients s)) (alert_patient_id a)
                \<and> references (map user_id (users s)) (alert_acknowledged_by a))
        then Inl ForeignKeyViolation
      else Inr (s\<lparr>alerts := replace_row alert_id i a (alerts s)\<rparr>))"

definition update_intervention :: "uuid \<Rightarrow> intervention \<Rightarrow> store \<Rightarrow> db_error + store" where
  "update_intervention i x0 s =
     (let x = x0\<lparr>intervention_id := Some i\<rparr> in
      if Some i \<notin> set (map intervention_id (interventions s)) then Inl StaleData
      else if \<not> intervention_not_null x then Inl NotNullViolation
      else if \<not> (references (map patient_id (patients s)) (intervention_patient_id x)
                \<and> references (map user_id (users s)) (intervention_clinician_id x))
        then Inl ForeignKeyViolation
      else Inr (s\<lparr>interventions := replace_row intervention_id i x (interventions s)\<rparr>))"

subsection \<open>DELETE by primary key\<close>

text \<open>
  No \<open>ForeignKey\<close> of models.py names an \<open>ondelete\<close> action, so the engine
  refuses to delete a row that another row references, and deletes any other. (The
  ORM's \<open>session.delete\<close> of a parent first sets the references of its children to
  NULL: that is an UPDATE of each child, then this DELETE.)
\<close>

definition delete_user :: "uuid \<Rightarrow> store \<Rightarrow> db_error + store" where
  "delete_user i s =
     (if Some i \<notin> set (map user_id (users s)) then Inl StaleData
      else if Some i \<in> set (map risk_created_by (risk_assessments s))
            \<or> Some i \<in> set (map alert_acknowledged_by (alerts s))
            \<or> Some i \<in> set (map intervention_clinician_id (interventions s))
        then Inl ForeignKeyViolation
      else Inr (s\<lparr>users := other_rows user_id i (users s)\<rparr>))"

definition delete_patient :: "uuid \<Rightarrow> store \<Rightarrow> db_error + store" where
  "delete_patient i s =
     (if Some i \<notin> set (map patient_id (patients s)) then Inl StaleData
      else if Some i \<in> set (map vital_patient_id (vital_signs s))
            \<or> Some i \<in> set (map lab_patient_id (lab_results s))
            \<or> Some i \<in> set (map risk_patient_id (risk_assessments s))
            \<or> Some i \<in> set (map alert_patient_id (alerts s))
            \<or> Some i \<in> set (map intervention_patient_id (interventions s))
        then Inl ForeignKeyViolation
      else Inr (s\<lparr>patients := other_rows patient_id i (patients s)\<rparr>))"

definition delete_vital :: "uuid \<Rightarrow> store \<Rightarrow> db_error + store" where
  "delete_vital i s =
     (if Some i \<notin> set (map vital_id (vital_signs s)) then Inl StaleData
      else Inr (s\<lparr>vital_signs := other_rows vital_id i (vital_signs s)\<rparr>))"

definition delete_lab_result :: "uuid \<Rightarrow> store \<Rightarrow> db_error + store" where
  "delete_lab_result i s =
     (if Some i \<notin> set (map lab_id (lab_results s)) then Inl StaleData
      else Inr (s\<lparr>lab_results := other_rows lab_id i (lab_results s)\<rparr>))"

definition delete_risk_assessment :: "uuid \<Rightarrow> store \<Rightarrow> db_error + store" where
  "delete_risk_assessment i s =
     (if Some i \<notin> set (map risk_id (risk_assessments s)) then Inl StaleData
      else Inr (s\<lparr>risk_assessments := other_rows risk_id i (risk_assessments s)\<rparr>))"

definition delete_alert :: "uuid \<Rightarrow> store \<Rightarrow> db_error + store" where
  "delete_alert i s =
     (if Some i \<notin> set (map alert_id (alerts s)) then Inl StaleData
      else Inr (s\<lparr>alerts := other_rows alert_id i (alerts s)\<rparr>))"

definition delete_intervention :: "uuid \<Rightarrow> store \<Rightarrow> db_error + store" where
  "delete_intervention i s =
     (if Some i \<notin> set (map intervention_id (interventions s)) then Inl StaleData
      else Inr (s\<lparr>interventions := other_rows intervention_id i (interventions s)\<rparr>))"

subsection \<open>Statements and the stores they reach\<close>

datatype row =
    UserRow user
  | PatientRow patient
  | VitalRow vital
  | LabResultRow lab_result
  | RiskAssessmentRow risk_assessment
  | AlertRow alert
  | InterventionRow intervention

datatype table = Users | Patients | VitalSigns | LabResults | RiskAssessments
  | Alerts | Interventions

datatype statement = Insert row | Update uuid row | Delete table uuid

fun run :: "datetime \<Rightarrow> uuid \<Rightarrow> statement \<Rightarrow> store \<Rightarrow> db_error + store" where
  "run now fresh (Insert (UserRow u)) s = insert_user now fresh u s"
| "run now fresh (Insert (PatientRow p)) s = insert_patient now fresh p s"
| "run now fresh (Insert (VitalRow v)) s = insert_vital now fresh v s"
| "run now fresh (Insert (LabResultRow l)) s = insert_lab_result now fresh l s"
| "run now fresh (Insert (RiskAssessmentRow r)) s = insert_risk_assessment now fresh r s"
| "run now fresh (Insert (AlertRow a)) s = insert_alert now fresh a s"
| "run now fresh (Insert (InterventionRow i)) s = insert_intervention now fresh i s"
| "run now fresh (Update k (UserRow u)) s = update_user now k u s"
| "run now fresh (Update k (PatientRow p)) s = update_patient now k p s"
| "run now fresh (Update k (VitalRow v)) s = update_vital k v s"
| "run now fresh (Update k (LabResultRow l)) s = update_lab_result k l s"
| "run now fresh (Update k (RiskAssessmentRow r)) s = update_risk_assessment k r s"
| "run now fresh (Update k (AlertRow a)) s = update_alert k a s"
| "run now fresh (Update k (InterventionRow i)) s = update_intervention k i s"
| "run now fresh (Delete Users k) s = delete_user k s"
| "run now fresh (Delete Patients k) s = delete_patient k s"
| "run now fresh (Delete VitalSigns k) s = delete_vital k s"
| "run now fresh (Delete LabResults k) s = delete_lab_result k s"
| "run now fresh (Delete RiskAssessments k) s = delete_risk_assessment k s"
| "run now fresh (Delete Alerts k) s = delete_alert k s"
| "run now fresh (Delete Interventions k) s = delete_intervention k s"

text \<open>
  A statement that the engine rejects leaves the database as it was: \<open>execute\<close>
  returns the error, if any, and the store after the statement.
\<close>

definition execute ::
  "datetime \<Rightarrow> uuid \<Rightarrow> statement \<Rightarrow> store \<Rightarrow> db_error option \<times> store" where
  "execute now fresh st s =
     (case run now fresh st s of Inl e \<Rightarrow> (Some e, s) | Inr s' \<Rightarrow> (None, s'))"

text \<open>The stores that accepted statements build from the empty database.\<close>

inductive reachable :: "store \<Rightarrow> bool" where
  reachable_empty: "reachable empty_store"
| reachable_step: "reachable s \<Longrightarrow> run now fresh st s = Inr s' \<Longrightarrow> reachable s'"


section \<open>What the constraints keep true of a store\<close>

text \<open>
  Every row of a table holds a reference (\<open>nullable=False\<close> on a foreign key) that
  is among the keys of the referenced table; or holds no reference or such a one (a
  nullable foreign key).
\<close>

definition all_refer :: "('c \<Rightarrow> 'k option) \<Rightarrow> 'c list \<Rightarrow> 'k option list \<Rightarrow> bool" where
  "all_refer ref rows keys = (\<forall>c \<in> set rows. ref c \<noteq> None \<and> ref c \<in> set keys)"

definition all_reference :: "('c \<Rightarrow> 'k option) \<Rightarrow> 'c list \<Rightarrow> 'k option list \<Rightarrow> bool" where
  "all_reference ref rows keys = (\<forall>c \<in> set rows. references keys (ref c))"

text \<open>\<open>patient_id\<close> of the five clinical models.\<close>

definition patient_refs_ok :: "store \<Rightarrow> bool" where
  "patient_refs_ok s =
     (all_refer vital_patient_id (vital_signs s) (map patient_id (patients s))
      \<and> all_refer lab_patient_id (lab_results s) (map patient_id (patients s))
      \<and> all_refer risk_patient_id (risk_assessments s) (map patient_id (patients s))
      \<and> all_refer alert_patient_id (alerts s) (map patient_id (patients s))
      \<and> all_refer intervention_patient_id (interventions s) (map patient_id (patients s)))"

text \<open>The nullable references to \<open>users.id\<close>.\<close>

definition user_refs_ok :: "store \<Rightarrow> bool" where
  "user_refs_ok s =
     (all_reference risk_created_by (risk_assessments s) (map user_id (users s))
      \<and> all_reference alert_acknowledged_by (alerts s) (map user_id (users s))
      \<and> all_reference intervention_clinician_id (interventions s) (map user_id (users s)))"

text \<open>The CHECK constraints, and \<open>nullable=False\<close> on \<open>risk_score\<close>.\<close>

definition checks_ok :: "store \<Rightarrow> bool" where
  "checks_ok s =
     ((\<forall>v \<in> set (vital_signs s). vital_checks v)
      \<and> (\<forall>r \<in> set (risk_assessments s).
         risk_risk_score r \<noteq> None \<and> risk_assessment_checks r))"

text \<open>The primary key and the two unique columns of \<open>users\<close>.\<close>

definition users_unique_ok :: "store \<Rightarrow> bool" where
  "users_unique_ok s =
     (distinct (map user_id (users s)) \<and> distinct (map user_username (users s))
      \<and> distinct (map user_email (users s)))"

text \<open>A double within the bounds of the risk score, as a plain statement.\<close>

definition score_in_range :: "float8 \<Rightarrow> bool" where
  "score_in_range x = (case x of Finite r \<Rightarrow> 0 \<le> r \<and> r \<le> 100 | _ \<Rightarrow> False)"

section \<open>Passwords\<close>

text \<open>
  \<open>User.set_password\<close> and \<open>User.check_password\<close> call werkzeug.security, which is
  not part of the repository. Its two functions are taken by their contract:
  \<open>generate_password_hash\<close> draws a salt and returns the string
  \<open>method$salt$hash\<close>, where the hash is the keyed digest of the password;
  \<open>check_password_hash\<close> splits the stored string at its first two \<open>$\<close> (fewer
  than three parts: \<open>False\<close>), recomputes the digest with the method and salt it
  read, and compares. The digest and the salt that is drawn are parameters.
\<close>

fun partition_at :: "char \<Rightarrow> string \<Rightarrow> (string \<times> string) option" where
  "partition_at c [] = None"
| "partition_at c (x # xs) =
     (if x = c then Some ([], xs)
      else map_option (\<lambda>(a, b). (x # a, b)) (partition_at c xs))"

definition generate_password_hash ::
  "(string \<Rightarrow> string \<Rightarrow> string \<Rightarrow> string) \<Rightarrow> string \<Rightarrow> string \<Rightarrow> string \<Rightarrow> string" where
  "generate_password_hash hash_internal method salt password =
     method @ ''$'' @ salt @ ''$'' @ hash_internal method salt password"

definition check_password_hash ::
  "(string \<Rightarrow> string \<Rightarrow> string \<Rightarrow> string) \<Rightarrow> string \<Rightarrow> string \<Rightarrow> bool" where
  "check_password_hash hash_internal pwhash password =
     (case partition_at CHR ''$'' pwhash of
        None \<Rightarrow> False
      | Some (method, rest) \<Rightarrow>
          (case partition_at CHR ''$'' rest of
             None \<Rightarrow> False
           | Some (salt, hashval) \<Rightarrow> hash_internal method salt password = hashval))"

definition set_password ::
  "(string \<Rightarrow> string \<Rightarrow> string \<Rightarrow> string) \<Rightarrow> string \<Rightarrow> string \<Rightarrow> user \<Rightarrow> string \<Rightarrow> user" where
  "set_password hash_internal method salt self password =
     self\<lparr>user_password_hash :=
       Some (generate_password_hash hash_internal method salt password)\<rparr>"

text \<open>Without a stored hash \<open>check_password\<close> raises (\<open>None\<close> has no \<open>split\<close>).\<close>

definition check_password ::
  "(string \<Rightarrow> string \<Rightarrow> string \<Rightarrow> string) \<Rightarrow> user \<Rightarrow> string \<Rightarrow> bool option" where
  "check_password hash_internal self password =
     (case user_password_hash self of
        None \<Rightarrow> None
      | Some pwhash \<Rightarrow> Some (check_password_hash hash_internal pwhash password))"

section \<open>Example rows\<close>

definition blank_user :: user where
  "blank_user = \<lparr>user_id = None, user_username = None, user_email = None,
     user_password_hash = None, user_first_name = None, user_last_name = None,
     user_role = None, user_is_active = None, user_is_verified = None,
     user_created_at = None, user_updated_at = None, user_last_login = None\<rparr>"

definition blank_patient :: patient where
  "blank_patient = \<lparr>patient_id = None, patient_mrn = None, patient_first_name = None,
     patient_last_name = None, patient_date_of_birth = None, patient_gender = None,
     patient_phone = None, patient_email = None, patient_address = None,
     patient_city = None, patient_state = None, patient_zip_code = None,
     patient_emergency_contact = None, patient_emergency_phone = None,
     patient_insurance_id = None, patient_comorbidities = None,
     patient_allergies = None, patient_current_medications = None,
     patient_admission_date = None, patient_discharge_date = None,
     patient_is_active = None, patient_created_at = None, patient_updated_at = None\<rparr>"

definition blank_vital :: vital where
  "blank_vital = \<lparr>vital_id = None, vital_patient_id = None,
     vital_measurement_time = None, vital_heart_rate = None, vital_systolic_bp = None,
     vital_diastolic_bp = None, vital_respiratory_rate = None, vital_temperature = None,
     vital_oxygen_saturation = None, vital_blood_glucose = None, vital_weight = None,
     vital_created_at = None\<rparr>"

definition blank_lab_result :: lab_result where
  "blank_lab_result = \<lparr>lab_id = None, lab_patient_id = None, lab_test_name = None,
     lab_test_value = None, lab_unit = None, lab_reference_low = None,
     lab_reference_high = None, lab_test_date = None, lab_lab_name = None,
     lab_status = None, lab_notes = None, lab_created_at = None\<rparr>"

definition blank_risk_assessment :: risk_assessment where
  "blank_risk_assessment = \<lparr>risk_id = None, risk_patient_id = None,
     risk_assessment_date = None, risk_risk_score = None, risk_risk_category = None,
     risk_clinical_factors = None, risk_alert_triggered = None,
     risk_alert_message = None, risk_assessment_type = None, risk_created_by = None,
     risk_created_at = None\<rparr>"

definition blank_alert :: alert where
  "blank_alert = \<lparr>alert_id = None, alert_patient_id = None, alert_alert_type = None,
     alert_title = None, alert_message = None, alert_severity = None,
     alert_status = None, alert_acknowledged_by = None, alert_acknowledged_at = None,
     alert_resolved_at = None, alert_created_at = None\<rparr>"

definition blank_intervention :: intervention where
  "blank_intervention = \<lparr>intervention_id = None, intervention_patient_id = None,
     intervention_intervention_type = None, intervention_description = None,
     intervention_intervention_date = None, intervention_outcome = None,
     intervention_clinician_id = None, intervention_notes = None,
     intervention_created_at = None\<rparr>"

text \<open>A clinician, a patient, and the database that holds the two (keys 1 and 7).\<close>

definition alice :: user where
  "alice = blank_user\<lparr>user_username := Some ''alice'',
     user_email := Some ''alice@example.org'', user_password_hash := Some ''x$y$z''\<rparr>"

definition jane :: patient where
  "jane = blank_patient\<lparr>patient_mrn := Some ''MRN-0001'',
     patient_first_name := Some ''Jane'', patient_last_name := Some ''Doe'',
     patient_date_of_birth := Some 0, patient_gender := Some ''F''\<rparr>"

definition ward :: store where
  "ward = empty_store\<lparr>users := [user_defaults 0 1 alice],
     patients := [patient_defaults 0 7 jane]\<rparr>"

text \<open>A measurement of a heart rate for the patient of key \<open>p\<close>.\<close>

definition pulse :: "uuid \<Rightarrow> int \<Rightarrow> vital" where
  "pulse p h = blank_vital\<lparr>vital_patient_id := Some p, vital_heart_rate := Some h\<rparr>"

text \<open>One record of each clinical model for that patient, and the database with them.\<close>

definition cbc :: lab_result where
  "cbc = blank_lab_result\<lparr>lab_patient_id := Some 7, lab_test_name := Some ''WBC'',
     lab_test_date := Some 0\<rparr>"

definition assessment :: "uuid option \<Rightarrow> float8 \<Rightarrow> risk_assessment" where
  "assessment author x = blank_risk_assessment\<lparr>risk_patient_id := Some 7,
     risk_risk_score := Some x, risk_created_by := author\<rparr>"

definition warning :: alert where
  "warning = blank_alert\<lparr>alert_patient_id := Some 7, alert_alert_type := Some ''warning'',
     alert_title := Some ''Tachycardia''\<rparr>"

definition referral :: intervention where
  "referral = blank_intervention\<lparr>intervention_patient_id := Some 7,
     intervention_intervention_type := Some ''referral'',
     intervention_intervention_date := Some 0\<rparr>"

definition clinic :: store where
  "clinic = ward\<lparr>vital_signs := [vital_defaults 0 11 (pulse 7 72)],
     lab_results := [lab_result_defaults 0 12 cbc],
     risk_assessments := [risk_assessment_defaults 0 13 (assessment (Some 1) (Finite 42))],
     alerts := [alert_defaults 0 14 warning],
     interventions := [intervention_defaults 0 15 referral]\<rparr>"

text \<open>A blood-pressure measurement, and a second account with the name of the first.\<close>

definition pressure :: "int \<Rightarrow> int \<Rightarrow> vital" where
  "pressure sys dia = blank_vital\<lparr>vital_patient_id := Some 7,
     vital_systolic_bp := Some sys, vital_diastolic_bp := Some dia\<rparr>"

definition alice2 :: user where
  "alice2 = alice\<lparr>user_email := Some ''other@example.org''\<rparr>"

text \<open>A digest to run the password functions on: the salt before the password.\<close>

definition toy_digest :: "string \<Rightarrow> string \<Rightarrow> string \<Rightarrow> string" where
  "toy_digest method salt password = salt @ password"

text \<open>A blood pressure that breaks one of the two constraints of \<open>vital_signs\<close>.\<close>

definition bp_out_of_range :: "vital \<Rightarrow> bool" where
  "bp_out_of_range v =
     ((\<exists>x. vital_systolic_bp v = Some x \<and> (x < 50 \<or> 300 < x))
      \<or> (\<exists>x. vital_diastolic_bp v = Some x \<and> (x < 30 \<or> 200 < x)))"

text \<open>The ward after an assessment that names no author.\<close>

definition anonymous :: store where
  "anonymous = ward\<lparr>risk_assessments :=
     [risk_assessment_defaults 0 13 (assessment None (Finite 42))]\<rparr>"

section \<open>The operations of the Clinical Records Store\<close>

text \<open>
  The repository has no code for the operations of the store: routes.py declares
  five empty blueprints, and nothing in app.py issues a statement. What follows is
  the layer that section 4.1 of the spec describes, on top of the engine above.
\<close>

text \<open>The table of a row, the keys a table holds, and the key of a row.\<close>

fun table_of :: "row \<Rightarrow> table" where
  "table_of (UserRow u) = Users"
| "table_of (PatientRow p) = Patients"
| "table_of (VitalRow v) = VitalSigns"
| "table_of (LabResultRow l) = LabResults"
| "table_of (RiskAssessmentRow r) = RiskAssessments"
| "table_of (AlertRow a) = Alerts"
| "table_of (InterventionRow i) = Interventions"

fun keys_of :: "table \<Rightarrow> store \<Rightarrow> uuid option list" where
  "keys_of Users s = map user_id (users s)"
| "keys_of Patients s = map patient_id (patients s)"
| "keys_of VitalSigns s = map vital_id (vital_signs s)"
| "keys_of LabResults s = map lab_id (lab_results s)"
| "keys_of RiskAssessments s = map risk_id (risk_assessments s)"
| "keys_of Alerts s = map alert_id (alerts s)"
| "keys_of Interventions s = map intervention_id (interventions s)"

fun row_key :: "row \<Rightarrow> uuid option" where
  "row_key (UserRow u) = user_id u"
| "row_key (PatientRow p) = patient_id p"
| "row_key (VitalRow v) = vital_id v"
| "row_key (LabResultRow l) = lab_id l"
| "row_key (RiskAssessmentRow r) = risk_id r"
| "row_key (AlertRow a) = alert_id a"
| "row_key (InterventionRow i) = intervention_id i"

text \<open>A reference that is there and is among the keys.\<close>

definition refers :: "'a option list \<Rightarrow> 'a option \<Rightarrow> bool" where
  "refers keys ref = (ref \<noteq> None \<and> ref \<in> set keys)"

text \<open>
  Modelled from the spec: the two errors of section 4.1, \<open>NotFound\<close> (missing
  patient/user reference) and \<open>ConstraintViolation\<close> (out-of-range value or duplicate
  unique key). The source defines no error of its own.
\<close>

datatype domain_error = NotFound | ConstraintViolation

text \<open>
  Modelled from the spec: create and update of each entity type. Reads and lookups
  leave the store as it is; the spec names no delete.
\<close>

datatype operation = Create row | Modify uuid row

text \<open>Modelled from the spec: the statement that an operation hands to the engine.\<close>

fun statement_of :: "operation \<Rightarrow> statement" where
  "statement_of (Create r) = Insert r"
| "statement_of (Modify k r) = Update k r"

fun row_of :: "operation \<Rightarrow> row" where
  "row_of (Create r) = r"
| "row_of (Modify k r) = r"

text \<open>
  Modelled from the spec: a missing patient or user reference. The patient of a
  clinical record must be named and stored; a user, when one is named, must be stored.
\<close>

fun missing_reference :: "row \<Rightarrow> store \<Rightarrow> bool" where
  "missing_reference (UserRow u) s = False"
| "missing_reference (PatientRow p) s = False"
| "missing_reference (VitalRow v) s =
     (\<not> refers (map patient_id (patients s)) (vital_patient_id v))"
| "missing_reference (LabResultRow l) s =
     (\<not> refers (map patient_id (patients s)) (lab_patient_id l))"
| "missing_reference (RiskAssessmentRow r) s =
     (\<not> refers (map patient_id (patients s)) (risk_patient_id r)
      \<or> \<not> references (map user_id (users s)) (risk_created_by r))"
| "missing_reference (AlertRow a) s =
     (\<not> refers (map patient_id (patients s)) (alert_patient_id a)
      \<or> \<not> references (map user_id (users s)) (alert_acknowledged_by a))"
| "missing_reference (InterventionRow i) s =
     (\<not> refers (map patient_id (patients s)) (intervention_patient_id i)
      \<or> \<not> references (map user_id (users s)) (intervention_clinician_id i))"

text \<open>
  Modelled from the spec: where the spec is silent, an update of a record that is not
  stored is \<open>NotFound\<close> as well.
\<close>

fun not_found :: "operation \<Rightarrow> store \<Rightarrow> bool" where
  "not_found (Create r) s = missing_reference r s"
| "not_found (Modify k r) s =
     (Some k \<notin> set (keys_of (table_of r) s) \<or> missing_reference r s)"

text \<open>
  Modelled from the spec: an operation looks up what it refers to, then hands the row
  to the engine; whatever the engine rejects is a \<open>ConstraintViolation\<close>, and an
  operation that fails leaves the store as it was.
\<close>

definition perform ::
  "datetime \<Rightarrow> uuid \<Rightarrow> operation \<Rightarrow> store \<Rightarrow> domain_error option \<times> store" where
  "perform now fresh op s =
     (if not_found op s then (Some NotFound, s)
      else (case run now fresh (statement_of op) s of
              Inl e \<Rightarrow> (Some ConstraintViolation, s)
            | Inr s' \<Rightarrow> (None, s')))"

text \<open>Modelled from the spec: a sequence of operations, failed ones included.\<close>

fun perform_all :: "(datetime \<times> uuid \<times> operation) list \<Rightarrow> store \<Rightarrow> store" where
  "perform_all [] s = s"
| "perform_all ((now, fresh, op) # ops) s = perform_all ops (snd (perform now fresh op s))"

text \<open>
  Modelled from the spec: an out-of-range value (a row that breaks a CHECK constraint
  of models.py) and a duplicate unique key (the row's primary key, username, email or
  MRN is that of another stored row).
\<close>

fun out_of_range :: "row \<Rightarrow> bool" where
  "out_of_range (VitalRow v) = (\<not> vital_checks v)"
| "out_of_range (RiskAssessmentRow r) = (\<not> risk_assessment_checks r)"
| "out_of_range r = False"

fun duplicate_key :: "operation \<Rightarrow> store \<Rightarrow> bool" where
  "duplicate_key (Create (UserRow u)) s =
     (refers (map user_id (users s)) (user_id u)
      \<or> refers (map user_username (users s)) (user_username u)
      \<or> refers (map user_email (users s)) (user_email u))"
| "duplicate_key (Create (PatientRow p)) s =
     (refers (map patient_id (patients s)) (patient_id p)
      \<or> refers (map patient_mrn (patients s)) (patient_mrn p))"
| "duplicate_key (Create r) s = refers (keys_of (table_of r) s) (row_key r)"
| "duplicate_key (Modify k (UserRow u)) s =
     (refers (map user_username (other_rows user_id k (users s))) (user_username u)
      \<or> refers (map user_email (other_rows user_id k (users s))) (user_email u))"
| "duplicate_key (Modify k (PatientRow p)) s =
     refers (map patient_mrn (other_rows patient_id k (patients s))) (patient_mrn p)"
| "duplicate_key (Modify k r) s = False"

text \<open>The alert of the example clinic, resolved.\<close>

definition resolved_warning :: alert where
  "resolved_warning = (alert_defaults 0 14 warning)
     \<lparr>alert_status := Some ''resolved'', alert_resolved_at := Some 99\<rparr>"

section \<open>Properties\<close>


subsection \<open>Replacing and removing rows\<close>

lemma map_key_replace_row:
  "key r = Some i \<Longrightarrow> map key (replace_row key i r rows) = map key rows"
  by (induction rows) (auto simp: replace_row_def)

lemma set_replace_row: "set (replace_row key i r rows) \<subseteq> insert r (set rows)"
  by (auto simp: replace_row_def)

lemma replace_row_absent:
  "Some i \<notin> set (map key rows) \<Longrightarrow> replace_row key i r rows = rows"
  by (induction rows) (auto simp: replace_row_def)

lemma other_rows_absent:
  "Some i \<notin> set (map key rows) \<Longrightarrow> other_rows key i rows = rows"
  by (induction rows) (auto simp: other_rows_def)

lemma distinct_map_replace_row:
  "distinct (map key rows) \<Longrightarrow> distinct (map col rows) \<Longrightarrow>
   col r \<notin> set (map col (other_rows key i rows)) \<Longrightarrow>
   distinct (map col (replace_row key i r rows))"
proof (induction rows)
  case Nil
  then show ?case by (simp add: replace_row_def)
next
  case (Cons x xs)
  show ?case
  proof (cases "key x = Some i")
    case True
    with Cons.prems(1) have absent: "Some i \<notin> set (map key xs)" by auto
    have "replace_row key i r (x # xs) = r # xs"
      using True replace_row_absent [OF absent, of r] by (simp add: replace_row_def)
    moreover have "other_rows key i (x # xs) = xs"
      using True other_rows_absent [OF absent] by (simp add: other_rows_def)
    ultimately show ?thesis using Cons.prems by simp
  next
    case False
    then have o: "other_rows key i (x # xs) = x # other_rows key i xs"
      by (simp add: other_rows_def)
    have ih: "distinct (map col (replace_row key i r xs))"
      using Cons.IH Cons.prems o by simp
    have "col x \<noteq> col r" using Cons.prems(3) o by auto
    moreover have "col x \<notin> set (map col xs)" using Cons.prems(2) by simp
    ultimately have "col x \<notin> set (map col (replace_row key i r xs))"
      using set_replace_row [of key i r xs] by auto
    then show ?thesis using ih False by (simp add: replace_row_def)
  qed
qed

lemma distinct_map_other_rows:
  "distinct (map col rows) \<Longrightarrow> distinct (map col (other_rows key i rows))"
  by (simp add: other_rows_def distinct_map_filter)

lemmas sql_defs = check_passes_def sql_and_def sql_cmp_def float8_ge_def
  unique_among_def references_def or_default_def

lemmas vital_defs = insert_vital_def update_vital_def vital_defaults_def
  vital_not_null_def vital_checks_def vital_check_heart_rate_def
  vital_check_systolic_bp_def vital_check_diastolic_bp_def

lemmas example_defs = ward_def empty_store_def alice_def jane_def pulse_def
  blank_user_def blank_patient_def blank_vital_def blank_lab_result_def
  blank_risk_assessment_def blank_alert_def blank_intervention_def
  user_defaults_def patient_defaults_def

subsection \<open>When a statement is accepted, and what it leaves\<close>

lemma insert_user_Inr:
  "insert_user now fresh u0 s = Inr s' \<longleftrightarrow>
     user_not_null (user_defaults now fresh u0) \<and> user_unique (users s) (user_defaults now fresh u0)
     \<and> s' = s\<lparr>users := users s @ [user_defaults now fresh u0]\<rparr>"
  by (auto simp: insert_user_def Let_def)

lemma insert_patient_Inr:
  "insert_patient now fresh p0 s = Inr s' \<longleftrightarrow>
     patient_not_null (patient_defaults now fresh p0)
     \<and> patient_unique (patients s) (patient_defaults now fresh p0)
     \<and> s' = s\<lparr>patients := patients s @ [patient_defaults now fresh p0]\<rparr>"
  by (auto simp: insert_patient_def Let_def)

lemma insert_vital_Inr:
  "insert_vital now fresh v0 s = Inr s' \<longleftrightarrow>
     vital_not_null (vital_defaults now fresh v0) \<and> vital_checks (vital_defaults now fresh v0)
     \<and> unique_among vital_id (vital_signs s) (vital_defaults now fresh v0)
     \<and> references (map patient_id (patients s)) (vital_patient_id (vital_defaults now fresh v0))
     \<and> s' = s\<lparr>vital_signs := vital_signs s @ [vital_defaults now fresh v0]\<rparr>"
  by (auto simp: insert_vital_def Let_def)

lemma insert_lab_result_Inr:
  "insert_lab_result now fresh l0 s = Inr s' \<longleftrightarrow>
     lab_result_not_null (lab_result_defaults now fresh l0)
     \<and> unique_among lab_id (lab_results s) (lab_result_defaults now fresh l0)
     \<and> references (map patient_id (patients s)) (lab_patient_id (lab_result_defaults now fresh l0))
     \<and> s' = s\<lparr>lab_results := lab_results s @ [lab_result_defaults now fresh l0]\<rparr>"
  by (auto simp: insert_lab_result_def Let_def)

lemma insert_risk_assessment_Inr:
  "insert_risk_assessment now fresh r0 s = Inr s' \<longleftrightarrow>
     risk_assessment_not_null (risk_assessment_defaults now fresh r0)
     \<and> risk_assessment_checks (risk_assessment_defaults now fresh r0)
     \<and> unique_among risk_id (risk_assessments s) (risk_assessment_defaults now fresh r0)
     \<and> references (map patient_id (patients s))
          (risk_patient_id (risk_assessment_defaults now fresh r0))
     \<and> references (map user_id (users s))
          (risk_created_by (risk_assessment_defaults now fresh r0))
     \<and> s' = s\<lparr>risk_assessments :=
               risk_assessments s @ [risk_assessment_defaults now fresh r0]\<rparr>"
  by (auto simp: insert_risk_assessment_def Let_def)

lemma insert_alert_Inr:
  "insert_alert now fresh a0 s = Inr s' \<longleftrightarrow>
     alert_not_null (alert_defaults now fresh a0)
     \<and> unique_among alert_id (alerts s) (alert_defaults now fresh a0)
     \<and> references (map patient_id (patients s)) (alert_patient_id (alert_defaults now fresh a0))
     \<and> references (map user_id (users s)) (alert_acknowledged_by (alert_defaults now fresh a0))
     \<and> s' = s\<lparr>alerts := alerts s @ [alert_defaults now fresh a0]\<rparr>"
  by (auto simp: insert_alert_def Let_def)

lemma insert_intervention_Inr:
  "insert_intervention now fresh i0 s = Inr s' \<longleftrightarrow>
     intervention_not_null (intervention_defaults now fresh i0)
     \<and> unique_among intervention_id (interventions s) (intervention_defaults now fresh i0)
     \<and> references (map patient_id (patients s))
          (intervention_patient_id (intervention_defaults now fresh i0))
     \<and> references (map user_id (users s))
          (intervention_clinician_id (intervention_defaults now fresh i0))
     \<and> s' = s\<lparr>interventions := interventions s @ [intervention_defaults now fresh i0]\<rparr>"
  by (auto simp: insert_intervention_def Let_def)

lemma update_user_Inr:
  assumes "update_user now i u0 s = Inr s'"
  shows "\<exists>u. user_id u = Some i \<and> user_not_null u
       \<and> user_unique (other_rows user_id i (users s)) u
       \<and> s' = s\<lparr>users := replace_row user_id i u (users s)\<rparr>"
proof -
  from assms obtain old where f: "find (\<lambda>x. user_id x = Some i) (users s) = Some old"
    by (auto simp: update_user_def split: option.splits)
  define u where "u = u0\<lparr>user_id := Some i,
    user_updated_at := (if user_updated_at u0 = user_updated_at old then Some now
                        else user_updated_at u0)\<rparr>"
  have "user_id u = Some i" by (simp add: u_def)
  moreover from assms f have "user_not_null u \<and> user_unique (other_rows user_id i (users s)) u
      \<and> s' = s\<lparr>users := replace_row user_id i u (users s)\<rparr>"
    unfolding u_def by (simp add: update_user_def Let_def split: if_splits)
  ultimately show ?thesis by blast
qed

lemma update_patient_Inr:
  assumes "update_patient now i p0 s = Inr s'"
  shows "\<exists>p. patient_id p = Some i \<and> patient_not_null p
       \<and> patient_unique (other_rows patient_id i (patients s)) p
       \<and> s' = s\<lparr>patients := replace_row patient_id i p (patients s)\<rparr>"
proof -
  from assms obtain old where f: "find (\<lambda>x. patient_id x = Some i) (patients s) = Some old"
    by (auto simp: update_patient_def split: option.splits)
  define p where "p = p0\<lparr>patient_id := Some i,
    patient_updated_at := (if patient_updated_at p0 = patient_updated_at old then Some now
                           else patient_updated_at p0)\<rparr>"
  have "patient_id p = Some i" by (simp add: p_def)
  moreover from assms f have "patient_not_null p
      \<and> patient_unique (other_rows patient_id i (patients s)) p
      \<and> s' = s\<lparr>patients := replace_row patient_id i p (patients s)\<rparr>"
    unfolding p_def by (simp add: update_patient_def Let_def split: if_splits)
  ultimately show ?thesis by blast
qed

lemma update_vital_Inr:
  "update_vital i v0 s = Inr s' \<longleftrightarrow>
     Some i \<in> set (map vital_id (vital_signs s))
     \<and> vital_not_null (v0\<lparr>vital_id := Some i\<rparr>) \<and> vital_checks (v0\<lparr>vital_id := Some i\<rparr>)
     \<and> references (map patient_id (patients s)) (vital_patient_id v0)
     \<and> s' = s\<lparr>vital_signs := replace_row vital_id i (v0\<lparr>vital_id := Some i\<rparr>) (vital_signs s)\<rparr>"
  by (auto simp: update_vital_def Let_def)

lemma update_lab_result_Inr:
  "update_lab_result i l0 s = Inr s' \<longleftrightarrow>
     Some i \<in> set (map lab_id (lab_results s))
     \<and> lab_result_not_null (l0\<lparr>lab_id := Some i\<rparr>)
     \<and> references (map patient_id (patients s)) (lab_patient_id l0)
     \<and> s' = s\<lparr>lab_results := replace_row lab_id i (l0\<lparr>lab_id := Some i\<rparr>) (lab_results s)\<rparr>"
  by (auto simp: update_lab_result_def Let_def)

lemma update_risk_assessment_Inr:
  "update_risk_assessment i r0 s = Inr s' \<longleftrightarrow>
     Some i \<in> set (map risk_id (risk_assessments s))
     \<and> risk_assessment_not_null (r0\<lparr>risk_id := Some i\<rparr>)
     \<and> risk_assessment_checks (r0\<lparr>risk_id := Some i\<rparr>)
     \<and> references (map patient_id (patients s)) (risk_patient_id r0)
     \<and> references (map user_id (users s)) (risk_created_by r0)
     \<and> s' = s\<lparr>risk_assessments :=
               replace_row risk_id i (r0\<lparr>risk_id := Some i\<rparr>) (risk_assessments s)\<rparr>"
  by (auto simp: update_risk_assessment_def Let_def)

lemma update_alert_Inr:
  "update_alert i a0 s = Inr s' \<longleftrightarrow>
     Some i \<in> set (map alert_id (alerts s))
     \<and> alert_not_null (a0\<lparr>alert_id := Some i\<rparr>)
     \<and> references (map patient_id (patients s)) (alert_patient_id a0)
     \<and> references (map user_id (users s)) (alert_acknowledged_by a0)
     \<and> s' = s\<lparr>alerts := replace_row alert_id i (a0\<lparr>alert_id := Some i\<rparr>) (alerts s)\<rparr>"
  by (auto simp: update_alert_def Let_def)

lemma update_intervention_Inr:
  "update_intervention i x0 s = Inr s' \<longleftrightarrow>
     Some i \<in> set (map intervention_id (interventions s))
     \<and> intervention_not_null (x0\<lparr>intervention_id := Some i\<rparr>)
     \<and> references (map patient_id (patients s)) (intervention_patient_id x0)
     \<and> references (map user_id (users s)) (intervention_clinician_id x0)
     \<and> s' = s\<lparr>interventions :=
               replace_row intervention_id i (x0\<lparr>intervention_id := Some i\<rparr>) (interventions s)\<rparr>"
  by (auto simp: update_intervention_def Let_def)

lemma delete_user_Inr:
  "delete_user i s = Inr s' \<longleftrightarrow>
     Some i \<in> set (map user_id (users s))
     \<and> Some i \<notin> set (map risk_created_by (risk_assessments s))
     \<and> Some i \<notin> set (map alert_acknowledged_by (alerts s))
     \<and> Some i \<notin> set (map intervention_clinician_id (interventions s))
     \<and> s' = s\<lparr>users := other_rows user_id i (users s)\<rparr>"
  by (auto simp: delete_user_def)

lemma delete_patient_Inr:
  "delete_patient i s = Inr s' \<longleftrightarrow>
     Some i \<in> set (map patient_id (patients s))
     \<and> Some i \<notin> set (map vital_patient_id (vital_signs s))
     \<and> Some i \<notin> set (map lab_patient_id (lab_results s))
     \<and> Some i \<notin> set (map risk_patient_id (risk_assessments s))
     \<and> Some i \<notin> set (map alert_patient_id (alerts s))
     \<and> Some i \<notin> set (map intervention_patient_id (interventions s))
     \<and> s' = s\<lparr>patients := other_rows patient_id i (patients s)\<rparr>"
  by (auto simp: delete_patient_def)

lemma delete_child_Inr:
  "delete_vital i s = Inr s' \<longleftrightarrow>
     Some i \<in> set (map vital_id (vital_signs s))
     \<and> s' = s\<lparr>vital_signs := other_rows vital_id i (vital_signs s)\<rparr>"
  "delete_lab_result i s = Inr s' \<longleftrightarrow>
     Some i \<in> set (map lab_id (lab_results s))
     \<and> s' = s\<lparr>lab_results := other_rows lab_id i (lab_results s)\<rparr>"
  "delete_risk_assessment i s = Inr s' \<longleftrightarrow>
     Some i \<in> set (map risk_id (risk_assessments s))
     \<and> s' = s\<lparr>risk_assessments := other_rows risk_id i (risk_assessments s)\<rparr>"
  "delete_alert i s = Inr s' \<longleftrightarrow>
     Some i \<in> set (map alert_id (alerts s))
     \<and> s' = s\<lparr>alerts := other_rows alert_id i (alerts s)\<rparr>"
  "delete_intervention i s = Inr s' \<longleftrightarrow>
     Some i \<in> set (map intervention_id (interventions s))
     \<and> s' = s\<lparr>interventions := other_rows intervention_id i (interventions s)\<rparr>"
  by (auto simp: delete_vital_def delete_lab_result_def delete_risk_assessment_def
        delete_alert_def delete_intervention_def)

lemmas accepted_iff = insert_user_Inr insert_patient_Inr insert_vital_Inr
  insert_lab_result_Inr insert_risk_assessment_Inr insert_alert_Inr
  insert_intervention_Inr update_vital_Inr update_lab_result_Inr
  update_risk_assessment_Inr update_alert_Inr update_intervention_Inr
  delete_user_Inr delete_patient_Inr delete_child_Inr

subsection \<open>Every accepted statement keeps the constraints\<close>

lemma in_replace_rowD:
  "x \<in> set (replace_row key i r rows) \<Longrightarrow> x = r \<or> x \<in> set rows"
  by (auto simp: replace_row_def split: if_splits)

lemma in_other_rowsD: "x \<in> set (other_rows key i rows) \<Longrightarrow> x \<in> set rows"
  by (simp add: other_rows_def)

lemma all_refer_append [simp]:
  "all_refer ref (rows @ [c]) keys \<longleftrightarrow>
     all_refer ref rows keys \<and> ref c \<noteq> None \<and> references keys (ref c)"
  by (auto simp: all_refer_def references_def)

lemma all_refer_replace_row:
  "all_refer ref rows keys \<Longrightarrow> ref c \<noteq> None \<Longrightarrow> references keys (ref c) \<Longrightarrow>
   all_refer ref (replace_row key i c rows) keys"
  by (auto simp: all_refer_def references_def dest!: in_replace_rowD)

lemma all_refer_other_rows:
  "all_refer ref rows keys \<Longrightarrow> all_refer ref (other_rows key i rows) keys"
  by (auto simp: all_refer_def dest!: in_other_rowsD)

lemma all_refer_more_keys:
  "all_refer ref rows keys \<Longrightarrow> all_refer ref rows (keys @ [k])"
  by (auto simp: all_refer_def)

lemma all_refer_fewer_keys:
  assumes "all_refer ref rows (map key ps)" and "Some i \<notin> set (map ref rows)"
  shows "all_refer ref rows (map key (other_rows key i ps))"
  unfolding all_refer_def
proof (intro ballI conjI)
  fix c assume c: "c \<in> set rows"
  with assms(1) show "ref c \<noteq> None" by (simp add: all_refer_def)
  from c assms(2) have "ref c \<noteq> Some i" by force
  moreover from c assms(1) have "ref c \<in> set (map key ps)" by (simp add: all_refer_def)
  ultimately show "ref c \<in> set (map key (other_rows key i ps))"
    by (auto simp: other_rows_def)
qed

lemma all_reference_append [simp]:
  "all_reference ref (rows @ [c]) keys \<longleftrightarrow>
     all_reference ref rows keys \<and> references keys (ref c)"
  by (auto simp: all_reference_def)

lemma all_reference_replace_row:
  "all_reference ref rows keys \<Longrightarrow> references keys (ref c) \<Longrightarrow>
   all_reference ref (replace_row key i c rows) keys"
  by (auto simp: all_reference_def dest!: in_replace_rowD)

lemma all_reference_other_rows:
  "all_reference ref rows keys \<Longrightarrow> all_reference ref (other_rows key i rows) keys"
  by (auto simp: all_reference_def dest!: in_other_rowsD)

lemma all_reference_more_keys:
  "all_reference ref rows keys \<Longrightarrow> all_reference ref rows (keys @ [k])"
  by (auto simp: all_reference_def references_def)

lemma all_reference_fewer_keys:
  assumes "all_reference ref rows (map key ps)" and "Some i \<notin> set (map ref rows)"
  shows "all_reference ref rows (map key (other_rows key i ps))"
  unfolding all_reference_def references_def
proof (intro ballI)
  fix c assume c: "c \<in> set rows"
  from c assms(2) have "ref c \<noteq> Some i" by force
  moreover from c assms(1) have "ref c = None \<or> ref c \<in> set (map key ps)"
    by (simp add: all_reference_def references_def)
  ultimately show "ref c = None \<or> ref c \<in> set (map key (other_rows key i ps))"
    by (auto simp: other_rows_def)
qed


lemmas not_null_defs = user_not_null_def patient_not_null_def vital_not_null_def
  lab_result_not_null_def risk_assessment_not_null_def alert_not_null_def
  intervention_not_null_def

lemma run_preserves_patient_refs:
  assumes "patient_refs_ok s" and "run now fresh st s = Inr s'"
  shows "patient_refs_ok s'"
proof (cases st)
  case (Insert r)
  with assms show ?thesis
    by (cases r)
       (auto simp: patient_refs_ok_def accepted_iff not_null_defs
          intro: all_refer_more_keys)
next
  case (Update k r)
  with assms show ?thesis
    by (cases r)
       (auto simp: patient_refs_ok_def accepted_iff not_null_defs
          map_key_replace_row
          intro!: all_refer_replace_row dest!: update_user_Inr update_patient_Inr)
next
  case (Delete t k)
  with assms show ?thesis
    by (cases t)
       (auto simp: patient_refs_ok_def accepted_iff
          intro!: all_refer_other_rows all_refer_fewer_keys)
qed

lemma run_preserves_user_refs:
  assumes "user_refs_ok s" and "run now fresh st s = Inr s'"
  shows "user_refs_ok s'"
proof (cases st)
  case (Insert r)
  with assms show ?thesis
    by (cases r)
       (auto simp: user_refs_ok_def accepted_iff intro: all_reference_more_keys)
next
  case (Update k r)
  with assms show ?thesis
    by (cases r)
       (auto simp: user_refs_ok_def accepted_iff map_key_replace_row
          intro!: all_reference_replace_row dest!: update_user_Inr update_patient_Inr)
next
  case (Delete t k)
  with assms show ?thesis
    by (cases t)
       (auto simp: user_refs_ok_def accepted_iff
          intro!: all_reference_other_rows all_reference_fewer_keys)
qed

lemma run_preserves_checks:
  assumes "checks_ok s" and "run now fresh st s = Inr s'"
  shows "checks_ok s'"
proof (cases st)
  case (Insert r)
  with assms show ?thesis
    by (cases r) (auto simp: checks_ok_def accepted_iff risk_assessment_not_null_def)
next
  case (Update k r)
  with assms show ?thesis
    by (cases r)
       (auto simp: checks_ok_def accepted_iff risk_assessment_not_null_def
          dest!: update_user_Inr update_patient_Inr in_replace_rowD)
next
  case (Delete t k)
  with assms show ?thesis
    by (cases t) (auto simp: checks_ok_def accepted_iff dest!: in_other_rowsD)
qed

lemma unique_among_fresh:
  "unique_among col rows r \<Longrightarrow> col r \<noteq> None \<Longrightarrow> col r \<notin> set (map col rows)"
  by (simp add: unique_among_def)

lemma run_preserves_users_unique:
  assumes "users_unique_ok s" and "run now fresh st s = Inr s'"
  shows "users_unique_ok s'"
proof (cases st)
  case (Insert r)
  with assms show ?thesis
    by (cases r)
       (auto simp: users_unique_ok_def accepted_iff user_not_null_def user_unique_def
          unique_among_def)
next
  case (Update k r)
  show ?thesis
  proof (cases r)
    case (UserRow u0)
    with assms Update obtain u where u: "user_id u = Some k" "user_not_null u"
        "user_unique (other_rows user_id k (users s)) u"
        "s' = s\<lparr>users := replace_row user_id k u (users s)\<rparr>"
      by (auto dest!: update_user_Inr)
    from u(2) have nn: "user_username u \<noteq> None" "user_email u \<noteq> None"
      by (simp_all add: user_not_null_def)
    from u(3) have ua: "unique_among user_username (other_rows user_id k (users s)) u"
        "unique_among user_email (other_rows user_id k (users s)) u"
      by (simp_all add: user_unique_def)
    have fresh:
        "user_username u \<notin> set (map user_username (other_rows user_id k (users s)))"
        "user_email u \<notin> set (map user_email (other_rows user_id k (users s)))"
      using unique_among_fresh [OF ua(1) nn(1)] unique_among_fresh [OF ua(2) nn(2)]
      by blast+
    from assms(1) have d: "distinct (map user_id (users s))"
        "distinct (map user_username (users s))" "distinct (map user_email (users s))"
      by (simp_all add: users_unique_ok_def)
    show ?thesis
      unfolding users_unique_ok_def u(4)
      using d fresh distinct_map_replace_row [OF d(1) d(2) fresh(1)]
        distinct_map_replace_row [OF d(1) d(3) fresh(2)]
      by (simp add: map_key_replace_row [of user_id u k] u(1))
  next
    case (PatientRow p)
    with assms Update show ?thesis
      by (auto simp: users_unique_ok_def dest!: update_patient_Inr)
  qed (use assms Update in \<open>auto simp: users_unique_ok_def accepted_iff\<close>)
next
  case (Delete t k)
  with assms show ?thesis
    by (cases t)
       (auto simp: users_unique_ok_def accepted_iff intro!: distinct_map_other_rows)
qed

lemma reachable_consistent:
  "reachable s \<Longrightarrow> patient_refs_ok s \<and> user_refs_ok s \<and> checks_ok s \<and> users_unique_ok s"
proof (induction rule: reachable.induct)
  case reachable_empty
  show ?case
    by (simp add: empty_store_def patient_refs_ok_def user_refs_ok_def checks_ok_def
          users_unique_ok_def all_refer_def all_reference_def)
next
  case (reachable_step s now fresh st s')
  then show ?case
    using run_preserves_patient_refs run_preserves_user_refs run_preserves_checks
      run_preserves_users_unique by blast
qed

subsection \<open>The example stores are reachable\<close>

lemmas row_defs = insert_user_def insert_patient_def insert_lab_result_def
  insert_risk_assessment_def insert_alert_def insert_intervention_def
  lab_result_defaults_def risk_assessment_defaults_def alert_defaults_def
  intervention_defaults_def not_null_defs user_unique_def patient_unique_def
  risk_assessment_checks_def

lemmas clinic_defs = clinic_def cbc_def assessment_def warning_def referral_def
  pressure_def alice2_def

lemma reachable_ward: "reachable ward"
proof -
  have 1: "run 0 1 (Insert (UserRow alice)) empty_store
      = Inr (empty_store\<lparr>users := [user_defaults 0 1 alice]\<rparr>)"
    by (simp add: Let_def row_defs sql_defs example_defs)
  have 2: "run 0 7 (Insert (PatientRow jane)) (empty_store\<lparr>users := [user_defaults 0 1 alice]\<rparr>)
      = Inr ward"
    by (simp add: Let_def row_defs sql_defs example_defs)
  show ?thesis
    using reachable_step [OF reachable_step [OF reachable_empty 1] 2] .
qed

lemma reachable_clinic: "reachable clinic"
proof -
  let ?v = "vital_defaults 0 11 (pulse 7 72)"
  let ?l = "lab_result_defaults 0 12 cbc"
  let ?r = "risk_assessment_defaults 0 13 (assessment (Some 1) (Finite 42))"
  let ?a = "alert_defaults 0 14 warning"
  let ?s1 = "ward\<lparr>vital_signs := [?v]\<rparr>"
  let ?s2 = "?s1\<lparr>lab_results := [?l]\<rparr>"
  let ?s3 = "?s2\<lparr>risk_assessments := [?r]\<rparr>"
  let ?s4 = "?s3\<lparr>alerts := [?a]\<rparr>"
  have 1: "run 0 11 (Insert (VitalRow (pulse 7 72))) ward = Inr ?s1"
    by (simp add: Let_def vital_defs row_defs sql_defs example_defs)
  have 2: "run 0 12 (Insert (LabResultRow cbc)) ?s1 = Inr ?s2"
    by (simp add: Let_def row_defs sql_defs example_defs clinic_defs)
  have 3: "run 0 13 (Insert (RiskAssessmentRow (assessment (Some 1) (Finite 42)))) ?s2 = Inr ?s3"
    by (simp add: Let_def row_defs sql_defs example_defs clinic_defs)
  have 4: "run 0 14 (Insert (AlertRow warning)) ?s3 = Inr ?s4"
    by (simp add: Let_def row_defs sql_defs example_defs clinic_defs)
  have 5: "run 0 15 (Insert (InterventionRow referral)) ?s4 = Inr clinic"
    by (simp add: Let_def row_defs sql_defs example_defs clinic_defs)
  show ?thesis
    using reachable_step [OF reachable_step [OF reachable_step [OF reachable_step
      [OF reachable_step [OF reachable_ward 1] 2] 3] 4] 5] .
qed

subsection \<open>The heart-rate constraint\<close>

text \<open>
  C2. An insert of a Vital whose heart_rate lies outside 0..300 is rejected (and
  the database stays as it was), so an insert with heart_rate = 301 fails; a heart
  rate within 0..300 passes its constraint, and the insert is then rejected exactly
  when it would be without a heart rate.
\<close>

theorem vital_heart_rate_range:
  "(vital_heart_rate v = Some h \<and> (h < 0 \<or> 300 < h) \<longrightarrow>
      fst (execute now fresh (Insert (VitalRow v)) s) \<noteq> None
      \<and> snd (execute now fresh (Insert (VitalRow v)) s) = s)
   \<and> (vital_heart_rate v = Some 301 \<longrightarrow>
      fst (execute now fresh (Insert (VitalRow v)) s) \<noteq> None)
   \<and> (vital_heart_rate v = Some h \<and> 0 \<le> h \<and> h \<le> 300 \<longrightarrow>
      vital_check_heart_rate (vital_defaults now fresh v)
      \<and> fst (execute now fresh (Insert (VitalRow v)) s)
          = fst (execute now fresh (Insert (VitalRow (v\<lparr>vital_heart_rate := None\<rparr>))) s))"
  by (auto simp: execute_def Let_def vital_defs sql_defs split: sum.splits)

theorem vital_heart_rate_range_witness:
  "fst (execute 0 2 (Insert (VitalRow (pulse 7 301))) ward) = Some CheckViolation
   \<and> snd (execute 0 2 (Insert (VitalRow (pulse 7 301))) ward) = ward
   \<and> vital_check_heart_rate (vital_defaults 0 2 (pulse 7 300))
   \<and> fst (execute 0 2 (Insert (VitalRow (pulse 7 300))) ward) = None"
  using vital_heart_rate_range [of "pulse 7 301" 301 0 2 ward]
    vital_heart_rate_range [of "pulse 7 300" 300 0 2 ward]
  by (simp add: execute_def Let_def vital_defs sql_defs example_defs)

subsection \<open>Rejected statements\<close>

lemma execute_rejected_iff:
  "fst (execute now fresh st s) \<noteq> None \<longleftrightarrow> (\<exists>e. run now fresh st s = Inl e)"
  by (simp add: execute_def split: sum.splits)

lemma execute_rejected_unchanged:
  "fst (execute now fresh st s) \<noteq> None \<Longrightarrow> snd (execute now fresh st s) = s"
  by (simp add: execute_def split: sum.splits)

subsection \<open>References to patients\<close>

text \<open>
  C1. In every store that accepted statements reach, each Vital, LabResult,
  RiskAssessment, Alert and Intervention holds a patient_id that is not NULL and is
  the key of a stored Patient. An insert of a Vital whose patient_id is the key of no
  stored Patient is rejected, and the store stays as it was.
\<close>

theorem clinical_records_reference_patient:
  "(reachable s \<longrightarrow>
      (\<forall>v \<in> set (vital_signs s). \<exists>p \<in> set (patients s).
          vital_patient_id v \<noteq> None \<and> patient_id p = vital_patient_id v)
      \<and> (\<forall>l \<in> set (lab_results s). \<exists>p \<in> set (patients s).
          lab_patient_id l \<noteq> None \<and> patient_id p = lab_patient_id l)
      \<and> (\<forall>r \<in> set (risk_assessments s). \<exists>p \<in> set (patients s).
          risk_patient_id r \<noteq> None \<and> patient_id p = risk_patient_id r)
      \<and> (\<forall>a \<in> set (alerts s). \<exists>p \<in> set (patients s).
          alert_patient_id a \<noteq> None \<and> patient_id p = alert_patient_id a)
      \<and> (\<forall>i \<in> set (interventions s). \<exists>p \<in> set (patients s).
          intervention_patient_id i \<noteq> None \<and> patient_id p = intervention_patient_id i))
   \<and> (vital_patient_id v \<notin> set (map patient_id (patients s)) \<longrightarrow>
      fst (execute now fresh (Insert (VitalRow v)) s) \<noteq> None
      \<and> snd (execute now fresh (Insert (VitalRow v)) s) = s)"
proof (intro conjI impI)
  assume "reachable s"
  then have ok: "patient_refs_ok s" by (simp add: reachable_consistent)
  then show "\<forall>v \<in> set (vital_signs s). \<exists>p \<in> set (patients s).
      vital_patient_id v \<noteq> None \<and> patient_id p = vital_patient_id v"
    by (fastforce simp: patient_refs_ok_def all_refer_def)
  from ok show "\<forall>l \<in> set (lab_results s). \<exists>p \<in> set (patients s).
      lab_patient_id l \<noteq> None \<and> patient_id p = lab_patient_id l"
    by (fastforce simp: patient_refs_ok_def all_refer_def)
  from ok show "\<forall>r \<in> set (risk_assessments s). \<exists>p \<in> set (patients s).
      risk_patient_id r \<noteq> None \<and> patient_id p = risk_patient_id r"
    by (fastforce simp: patient_refs_ok_def all_refer_def)
  from ok show "\<forall>a \<in> set (alerts s). \<exists>p \<in> set (patients s).
      alert_patient_id a \<noteq> None \<and> patient_id p = alert_patient_id a"
    by (fastforce simp: patient_refs_ok_def all_refer_def)
  from ok show "\<forall>i \<in> set (interventions s). \<exists>p \<in> set (patients s).
      intervention_patient_id i \<noteq> None \<and> patient_id p = intervention_patient_id i"
    by (fastforce simp: patient_refs_ok_def all_refer_def)
next
  assume missing: "vital_patient_id v \<notin> set (map patient_id (patients s))"
  have "\<exists>e. run now fresh (Insert (VitalRow v)) s = Inl e"
    using missing
    by (auto simp: insert_vital_def Let_def vital_defaults_def vital_not_null_def references_def)
  then show "fst (execute now fresh (Insert (VitalRow v)) s) \<noteq> None"
    using execute_rejected_iff [of now fresh "Insert (VitalRow v)" s] by blast
  then show "snd (execute now fresh (Insert (VitalRow v)) s) = s"
    by (rule execute_rejected_unchanged)
qed

theorem clinical_records_reference_patient_witness:
  "reachable clinic
   \<and> map vital_patient_id (vital_signs clinic) = [Some 7]
   \<and> map lab_patient_id (lab_results clinic) = [Some 7]
   \<and> map risk_patient_id (risk_assessments clinic) = [Some 7]
   \<and> map alert_patient_id (alerts clinic) = [Some 7]
   \<and> map intervention_patient_id (interventions clinic) = [Some 7]
   \<and> map patient_id (patients clinic) = [Some 7]
   \<and> execute 0 21 (Insert (VitalRow (pulse 8 72))) clinic = (Some ForeignKeyViolation, clinic)"
  using clinical_records_reference_patient [of clinic "pulse 8 72" 0 21] reachable_clinic
  by (simp add: execute_def Let_def vital_defs sql_defs example_defs clinic_defs row_defs)

subsection \<open>The risk score\<close>

lemma risk_checks_in_range:
  "risk_assessment_checks r \<Longrightarrow> risk_risk_score r = Some x \<Longrightarrow> score_in_range x"
  by (cases x)
     (auto simp: risk_assessment_checks_def score_in_range_def sql_defs split: if_splits)

lemma score_out_of_range_fails:
  "risk_risk_score r = Some x \<Longrightarrow> \<not> score_in_range x \<Longrightarrow> \<not> risk_assessment_checks r"
  using risk_checks_in_range by blast

text \<open>
  C3. An insert of a RiskAssessment whose risk_score lies outside [0, 100] (an
  infinity and NaN included) is rejected and leaves the store as it was, so an insert
  with risk_score = 150 fails; and every RiskAssessment of a reachable store has a
  risk_score, which lies in [0, 100].
\<close>

theorem risk_score_range:
  "(risk_risk_score r = Some x \<and> \<not> score_in_range x \<longrightarrow>
      fst (execute now fresh (Insert (RiskAssessmentRow r)) s) \<noteq> None
      \<and> snd (execute now fresh (Insert (RiskAssessmentRow r)) s) = s)
   \<and> (risk_risk_score r = Some (Finite 150) \<longrightarrow>
      fst (execute now fresh (Insert (RiskAssessmentRow r)) s) \<noteq> None)
   \<and> (reachable s \<longrightarrow>
      (\<forall>a \<in> set (risk_assessments s). \<exists>y. risk_risk_score a = Some y \<and> score_in_range y))"
proof (intro conjI impI)
  have rejected: "fst (execute now fresh (Insert (RiskAssessmentRow r)) s) \<noteq> None"
    if "risk_risk_score r = Some y" and "\<not> score_in_range y" for y
  proof -
    have "risk_risk_score (risk_assessment_defaults now fresh r) = Some y"
      using that(1) by (simp add: risk_assessment_defaults_def)
    then have "\<not> risk_assessment_checks (risk_assessment_defaults now fresh r)"
      using that(2) score_out_of_range_fails by blast
    then have "\<exists>e. run now fresh (Insert (RiskAssessmentRow r)) s = Inl e"
      by (simp add: insert_risk_assessment_def Let_def)
    then show ?thesis
      using execute_rejected_iff [of now fresh "Insert (RiskAssessmentRow r)" s] by blast
  qed
  {
    assume "risk_risk_score r = Some x \<and> \<not> score_in_range x"
    then show "fst (execute now fresh (Insert (RiskAssessmentRow r)) s) \<noteq> None"
      using rejected by blast
    then show "snd (execute now fresh (Insert (RiskAssessmentRow r)) s) = s"
      by (rule execute_rejected_unchanged)
  }
  {
    assume "risk_risk_score r = Some (Finite 150)"
    then show "fst (execute now fresh (Insert (RiskAssessmentRow r)) s) \<noteq> None"
      using rejected [of "Finite 150"] by (simp add: score_in_range_def)
  }
  {
    assume "reachable s"
    then have "checks_ok s" by (simp add: reachable_consistent)
    then show "\<forall>a \<in> set (risk_assessments s).
        \<exists>y. risk_risk_score a = Some y \<and> score_in_range y"
      using risk_checks_in_range by (fastforce simp: checks_ok_def)
  }
qed

theorem risk_score_range_witness:
  "\<not> score_in_range (Finite 150)
   \<and> execute 0 31 (Insert (RiskAssessmentRow (assessment (Some 1) (Finite 150)))) clinic
       = (Some CheckViolation, clinic)
   \<and> execute 0 31 (Insert (RiskAssessmentRow (assessment (Some 1) NaN))) clinic
       = (Some CheckViolation, clinic)
   \<and> reachable clinic
   \<and> map risk_risk_score (risk_assessments clinic) = [Some (Finite 42)]
   \<and> score_in_range (Finite 42)"
  using risk_score_range [of "assessment (Some 1) (Finite 150)" "Finite 150" 0 31 clinic]
    reachable_clinic
  by (simp add: execute_def Let_def score_in_range_def sql_defs example_defs clinic_defs row_defs)

subsection \<open>Unique user names and e-mail addresses\<close>

text \<open>
  C4. In every reachable store no two Users share a username and no two share an
  email; an insert of a User whose username or email is that of a stored User is
  rejected and leaves the store as it was; and whatever statement a reachable store
  accepts, the two columns stay free of duplicates.
\<close>

theorem users_unique:
  "(reachable s \<longrightarrow>
      distinct (map user_username (users s)) \<and> distinct (map user_email (users s)))
   \<and> (user_username u \<in> set (map user_username (users s))
        \<or> user_email u \<in> set (map user_email (users s)) \<longrightarrow>
      fst (execute now fresh (Insert (UserRow u)) s) \<noteq> None
      \<and> snd (execute now fresh (Insert (UserRow u)) s) = s)
   \<and> (reachable s \<and> run now fresh st s = Inr s' \<longrightarrow>
      distinct (map user_username (users s')) \<and> distinct (map user_email (users s')))"
proof (intro conjI impI)
  assume "reachable s"
  then show "distinct (map user_username (users s))" "distinct (map user_email (users s))"
    using reachable_consistent by (simp_all add: users_unique_ok_def)
next
  assume dup: "user_username u \<in> set (map user_username (users s))
      \<or> user_email u \<in> set (map user_email (users s))"
  have "\<exists>e. run now fresh (Insert (UserRow u)) s = Inl e"
    using dup
    by (auto simp: insert_user_def Let_def user_defaults_def user_not_null_def
          user_unique_def unique_among_def)
  then show "fst (execute now fresh (Insert (UserRow u)) s) \<noteq> None"
    using execute_rejected_iff [of now fresh "Insert (UserRow u)" s] by blast
  then show "snd (execute now fresh (Insert (UserRow u)) s) = s"
    by (rule execute_rejected_unchanged)
next
  assume "reachable s \<and> run now fresh st s = Inr s'"
  then have "reachable s'" using reachable_step by blast
  then show "distinct (map user_username (users s'))" "distinct (map user_email (users s'))"
    using reachable_consistent by (simp_all add: users_unique_ok_def)
qed

theorem users_unique_witness:
  "reachable clinic
   \<and> map user_username (users clinic) = [Some ''alice'']
   \<and> user_username alice2 = Some ''alice''
   \<and> user_email alice2 \<notin> set (map user_email (users clinic))
   \<and> execute 0 2 (Insert (UserRow alice2)) clinic = (Some UniqueViolation, clinic)"
  using users_unique [of clinic alice2 0 2] reachable_clinic
  by (simp add: execute_def Let_def sql_defs example_defs clinic_defs row_defs)

subsection \<open>The blood-pressure constraints\<close>

lemma vital_checks_bp:
  "vital_checks v \<Longrightarrow>
     (\<forall>x. vital_systolic_bp v = Some x \<longrightarrow> 50 \<le> x \<and> x \<le> 300)
     \<and> (\<forall>x. vital_diastolic_bp v = Some x \<longrightarrow> 30 \<le> x \<and> x \<le> 200)"
  by (auto simp: vital_checks_def vital_check_systolic_bp_def vital_check_diastolic_bp_def
        sql_defs split: if_splits)

text \<open>
  C5. Every Vital of a reachable store has a systolic_bp, when present, within
  50..300 and a diastolic_bp, when present, within 30..200; an insert or an update
  with a systolic or diastolic pressure outside its range is rejected and leaves the
  store as it was.
\<close>

theorem vital_blood_pressure_range:
  "(reachable s \<longrightarrow>
      (\<forall>v \<in> set (vital_signs s).
          (\<forall>x. vital_systolic_bp v = Some x \<longrightarrow> 50 \<le> x \<and> x \<le> 300)
          \<and> (\<forall>x. vital_diastolic_bp v = Some x \<longrightarrow> 30 \<le> x \<and> x \<le> 200)))
   \<and> (bp_out_of_range v \<longrightarrow>
      fst (execute now fresh (Insert (VitalRow v)) s) \<noteq> None
      \<and> snd (execute now fresh (Insert (VitalRow v)) s) = s
      \<and> fst (execute now fresh (Update k (VitalRow v)) s) \<noteq> None
      \<and> snd (execute now fresh (Update k (VitalRow v)) s) = s)"
proof (intro conjI impI)
  assume "reachable s"
  then have "checks_ok s" by (simp add: reachable_consistent)
  then show "\<forall>v \<in> set (vital_signs s).
      (\<forall>x. vital_systolic_bp v = Some x \<longrightarrow> 50 \<le> x \<and> x \<le> 300)
      \<and> (\<forall>x. vital_diastolic_bp v = Some x \<longrightarrow> 30 \<le> x \<and> x \<le> 200)"
    using vital_checks_bp unfolding checks_ok_def by blast
next
  assume bad: "bp_out_of_range v"
  then have 1: "\<not> vital_checks (vital_defaults now fresh v)"
    and 2: "\<not> vital_checks (v\<lparr>vital_id := Some k\<rparr>)"
    by (auto simp: bp_out_of_range_def vital_defaults_def vital_checks_def
          vital_check_systolic_bp_def vital_check_diastolic_bp_def sql_defs)
  from 1 have "\<exists>e. run now fresh (Insert (VitalRow v)) s = Inl e"
    by (simp add: insert_vital_def Let_def)
  then show i: "fst (execute now fresh (Insert (VitalRow v)) s) \<noteq> None"
    using execute_rejected_iff [of now fresh "Insert (VitalRow v)" s] by blast
  from 2 have "\<exists>e. run now fresh (Update k (VitalRow v)) s = Inl e"
    by (simp add: update_vital_def Let_def)
  then show u: "fst (execute now fresh (Update k (VitalRow v)) s) \<noteq> None"
    using execute_rejected_iff [of now fresh "Update k (VitalRow v)" s] by blast
  from i show "snd (execute now fresh (Insert (VitalRow v)) s) = s"
    by (rule execute_rejected_unchanged)
  from u show "snd (execute now fresh (Update k (VitalRow v)) s) = s"
    by (rule execute_rejected_unchanged)
qed

theorem vital_blood_pressure_range_witness:
  "reachable clinic
   \<and> bp_out_of_range (pressure 301 80)
   \<and> execute 0 41 (Insert (VitalRow (pressure 301 80))) clinic = (Some CheckViolation, clinic)
   \<and> execute 0 41 (Update 11 (VitalRow ((pressure 120 29)\<lparr>vital_measurement_time := Some 5\<rparr>)))
         clinic = (Some CheckViolation, clinic)
   \<and> fst (execute 0 41 (Insert (VitalRow (pressure 300 30))) clinic) = None
   \<and> map vital_systolic_bp (vital_signs clinic) = [None]"
proof -
  have "bp_out_of_range (pressure 301 80)
   \<and> execute 0 41 (Insert (VitalRow (pressure 301 80))) clinic = (Some CheckViolation, clinic)
   \<and> execute 0 41 (Update 11 (VitalRow ((pressure 120 29)\<lparr>vital_measurement_time := Some 5\<rparr>)))
         clinic = (Some CheckViolation, clinic)
   \<and> fst (execute 0 41 (Insert (VitalRow (pressure 300 30))) clinic) = None
   \<and> map vital_systolic_bp (vital_signs clinic) = [None]"
    by (simp add: execute_def Let_def bp_out_of_range_def vital_defs sql_defs example_defs
          clinic_defs)
  then show ?thesis
    using vital_blood_pressure_range [of clinic "pressure 301 80" 0 41 11] reachable_clinic
    by blast
qed

subsection \<open>The author of a risk assessment\<close>

text \<open>
  C8, as amended. \<open>created_by\<close> is a nullable foreign key: in every reachable store
  the created_by of a RiskAssessment is NULL or the key of a stored User.
\<close>

theorem risk_assessment_author_optional:
  "reachable s \<Longrightarrow>
     \<forall>r \<in> set (risk_assessments s).
        risk_created_by r = None \<or> risk_created_by r \<in> set (map user_id (users s))"
  using reachable_consistent [of s]
  by (simp add: user_refs_ok_def all_reference_def references_def)

theorem risk_assessment_author_optional_witness:
  "reachable clinic
   \<and> map risk_created_by (risk_assessments clinic) = [Some 1]
   \<and> map user_id (users clinic) = [Some 1]"
proof -
  have "map risk_created_by (risk_assessments clinic) = [Some 1]
      \<and> map user_id (users clinic) = [Some 1]"
    by (simp add: example_defs clinic_defs risk_assessment_defaults_def sql_defs)
  then show ?thesis
    using risk_assessment_author_optional [of clinic] reachable_clinic by blast
qed

text \<open>
  C8 as stated fails: the engine accepts a RiskAssessment without created_by, and the
  store it leaves holds an assessment that no User is named for.
\<close>

theorem risk_assessment_without_author:
  "reachable anonymous
   \<and> execute 0 13 (Insert (RiskAssessmentRow (assessment None (Finite 42)))) ward
       = (None, anonymous)
   \<and> map risk_created_by (risk_assessments anonymous) = [None]"
proof -
  have 1: "run 0 13 (Insert (RiskAssessmentRow (assessment None (Finite 42)))) ward
      = Inr anonymous"
    by (simp add: anonymous_def Let_def row_defs sql_defs example_defs clinic_defs)
  then have "reachable anonymous" using reachable_step [OF reachable_ward] by blast
  with 1 show ?thesis
    by (simp add: execute_def anonymous_def risk_assessment_defaults_def assessment_def)
qed

subsection \<open>Column defaults\<close>



subsection \<open>Setting and checking a password\<close>

lemma partition_at_found:
  "c \<notin> set a \<Longrightarrow> partition_at c (a @ c # b) = Some (a, b)"
  by (induction a) auto

lemma check_generated:
  assumes "CHR ''$'' \<notin> set method" and "CHR ''$'' \<notin> set salt"
  shows "check_password_hash hash_internal
           (generate_password_hash hash_internal method salt p) q
         \<longleftrightarrow> hash_internal method salt q = hash_internal method salt p"
proof -
  have 1: "partition_at CHR ''$'' (method @ CHR ''$'' # salt @ CHR ''$'' # hash_internal method salt p)
      = Some (method, salt @ CHR ''$'' # hash_internal method salt p)"
    using assms(1) by (rule partition_at_found)
  have 2: "partition_at CHR ''$'' (salt @ CHR ''$'' # hash_internal method salt p)
      = Some (salt, hash_internal method salt p)"
    using assms(2) by (rule partition_at_found)
  show ?thesis
    using 1 2 by (simp add: check_password_hash_def generate_password_hash_def)
qed

text \<open>
  C9. After \<open>u.set_password(p)\<close>, \<open>u.check_password(p)\<close> returns True, and
  \<open>u.check_password(q)\<close> returns False for every \<open>q\<close> whose digest (under the
  stored method and salt) differs from that of \<open>p\<close>. The method and the salt hold
  no \<open>$\<close>, as werkzeug's never do.
\<close>

theorem password_round_trip:
  "CHR ''$'' \<notin> set method \<Longrightarrow> CHR ''$'' \<notin> set salt \<Longrightarrow>
     check_password hash_internal (set_password hash_internal method salt u p) p = Some True
     \<and> (hash_internal method salt q \<noteq> hash_internal method salt p \<longrightarrow>
          check_password hash_internal (set_password hash_internal method salt u p) q
            = Some False)"
  by (simp add: check_password_def set_password_def check_generated)

theorem password_round_trip_witness:
  "CHR ''$'' \<notin> set ''scrypt:32768:8:1'' \<and> CHR ''$'' \<notin> set ''NaCl''
   \<and> user_password_hash (set_password toy_digest ''scrypt:32768:8:1'' ''NaCl'' alice ''secret'')
       = Some ''scrypt:32768:8:1$NaCl$NaClsecret''
   \<and> check_password toy_digest
        (set_password toy_digest ''scrypt:32768:8:1'' ''NaCl'' alice ''secret'') ''secret''
       = Some True
   \<and> check_password toy_digest
        (set_password toy_digest ''scrypt:32768:8:1'' ''NaCl'' alice ''secret'') ''guess''
       = Some False"
proof -
  have a: "CHR ''$'' \<notin> set ''scrypt:32768:8:1''" and b: "CHR ''$'' \<notin> set ''NaCl''"
    by simp_all
  have c: "user_password_hash
      (set_password toy_digest ''scrypt:32768:8:1'' ''NaCl'' alice ''secret'')
      = Some ''scrypt:32768:8:1$NaCl$NaClsecret''"
    by (simp add: set_password_def generate_password_hash_def toy_digest_def)
  have d: "toy_digest ''scrypt:32768:8:1'' ''NaCl'' ''guess''
      \<noteq> toy_digest ''scrypt:32768:8:1'' ''NaCl'' ''secret''"
    by (simp add: toy_digest_def)
  show ?thesis
    using password_round_trip [OF a b, of toy_digest alice "''secret''" "''guess''"] a b c d
    by blast
qed

subsection \<open>The operations keep every record\<close>

lemma length_replace_row: "length (replace_row key i r rows) = length rows"
  by (simp add: replace_row_def)

lemma image_key_replace_row:
  "key r = Some i \<Longrightarrow> key ` set (replace_row key i r rows) = key ` set rows"
  using map_key_replace_row [of key r i rows] by (metis set_map)

lemma run_keeps_keys:
  assumes "run now fresh st s = Inr s'" and "\<forall>t k. st \<noteq> Delete t k"
  shows "set (keys_of t s) \<subseteq> set (keys_of t s') \<and> length (keys_of t s) \<le> length (keys_of t s')"
proof (cases st)
  case (Insert r)
  with assms show ?thesis
    by (cases r; cases t) (auto simp: accepted_iff)
next
  case (Update k r)
  with assms show ?thesis
    by (cases r; cases t)
       (auto simp: accepted_iff map_key_replace_row image_key_replace_row length_replace_row
          dest!: update_user_Inr update_patient_Inr)
next
  case (Delete t k)
  with assms show ?thesis by simp
qed

lemma perform_keeps_keys:
  "set (keys_of t s) \<subseteq> set (keys_of t (snd (perform now fresh op s)))
   \<and> length (keys_of t s) \<le> length (keys_of t (snd (perform now fresh op s)))"
proof (cases "not_found op s")
  case True
  then show ?thesis by (simp add: perform_def)
next
  case False
  show ?thesis
  proof (cases "run now fresh (statement_of op) s")
    case (Inl e)
    with False show ?thesis by (simp add: perform_def)
  next
    case (Inr s')
    have "\<forall>t k. statement_of op \<noteq> Delete t k" by (cases op) simp_all
    with Inr have "set (keys_of t s) \<subseteq> set (keys_of t s')
        \<and> length (keys_of t s) \<le> length (keys_of t s')"
      by (rule run_keeps_keys)
    with False Inr show ?thesis by (simp add: perform_def)
  qed
qed


text \<open>
  C6. Whatever sequence of create and update operations the store performs, every
  key that a table holds before is held after, and no table has fewer rows: no
  operation removes a record. A lifecycle change is an update of the record's own
  fields, as the resolved alert of the example shows (status 'resolved',
  resolved_at set, the record still there).
\<close>

theorem records_never_deleted:
  "set (keys_of t s) \<subseteq> set (keys_of t (perform_all ops s))
   \<and> length (keys_of t s) \<le> length (keys_of t (perform_all ops s))"
proof (induction ops arbitrary: s)
  case Nil
  show ?case by simp
next
  case (Cons x ops)
  obtain now fresh op where x: "x = (now, fresh, op)" by (cases x) auto
  let ?s = "snd (perform now fresh op s)"
  have "set (keys_of t s) \<subseteq> set (keys_of t ?s)
      \<and> length (keys_of t s) \<le> length (keys_of t ?s)"
    by (rule perform_keeps_keys)
  moreover have "set (keys_of t ?s) \<subseteq> set (keys_of t (perform_all ops ?s))
      \<and> length (keys_of t ?s) \<le> length (keys_of t (perform_all ops ?s))"
    by (rule Cons.IH)
  ultimately show ?case using x by auto
qed

theorem records_never_deleted_witness:
  "perform 5 50 (Modify 14 (AlertRow resolved_warning)) clinic
     = (None, clinic\<lparr>alerts := [resolved_warning]\<rparr>)
   \<and> keys_of Alerts clinic = [Some 14]
   \<and> keys_of Alerts (perform_all [(5, 50, Modify 14 (AlertRow resolved_warning))] clinic)
       = [Some 14]
   \<and> map alert_status (alerts clinic) = [Some ''active'']
   \<and> map alert_status
        (alerts (perform_all [(5, 50, Modify 14 (AlertRow resolved_warning))] clinic))
       = [Some ''resolved'']
   \<and> map alert_resolved_at
        (alerts (perform_all [(5, 50, Modify 14 (AlertRow resolved_warning))] clinic))
       = [Some 99]"
proof -
  have 1: "perform 5 50 (Modify 14 (AlertRow resolved_warning)) clinic
      = (None, clinic\<lparr>alerts := [resolved_warning]\<rparr>)"
    by (simp add: perform_def refers_def update_alert_def Let_def replace_row_def
          resolved_warning_def row_defs sql_defs example_defs clinic_defs)
  have 2: "keys_of Alerts clinic = [Some 14]
      \<and> map alert_status (alerts clinic) = [Some ''active'']"
    by (simp add: row_defs sql_defs example_defs clinic_defs)
  have 3: "alert_id resolved_warning = Some 14
      \<and> alert_status resolved_warning = Some ''resolved''
      \<and> alert_resolved_at resolved_warning = Some 99"
    by (simp add: resolved_warning_def row_defs sql_defs example_defs clinic_defs)
  show ?thesis
    using records_never_deleted
      [of Alerts clinic "[(5, 50, Modify 14 (AlertRow resolved_warning))]"] 1 2 3
    by simp
qed

subsection \<open>The two errors of an operation\<close>

lemma unique_among_iff: "unique_among col rows r \<longleftrightarrow> \<not> refers (map col rows) (col r)"
  by (simp add: unique_among_def refers_def)

lemma refers_or_default: "refers keys x \<Longrightarrow> refers keys (or_default x d)"
  by (auto simp: refers_def or_default_def)

lemma checks_after_defaults:
  "vital_checks (vital_defaults now fresh v) = vital_checks v"
  "vital_checks (v\<lparr>vital_id := k\<rparr>) = vital_checks v"
  "risk_assessment_checks (risk_assessment_defaults now fresh r) = risk_assessment_checks r"
  "risk_assessment_checks (r\<lparr>risk_id := k\<rparr>) = risk_assessment_checks r"
  by (simp_all add: vital_checks_def vital_check_heart_rate_def vital_check_systolic_bp_def
        vital_check_diastolic_bp_def vital_defaults_def risk_assessment_checks_def
        risk_assessment_defaults_def)

lemma columns_after_defaults:
  "user_id (user_defaults now fresh u) = or_default (user_id u) fresh"
  "user_username (user_defaults now fresh u) = user_username u"
  "user_email (user_defaults now fresh u) = user_email u"
  "patient_id (patient_defaults now fresh p) = or_default (patient_id p) fresh"
  "patient_mrn (patient_defaults now fresh p) = patient_mrn p"
  "vital_id (vital_defaults now fresh v) = or_default (vital_id v) fresh"
  "lab_id (lab_result_defaults now fresh l) = or_default (lab_id l) fresh"
  "risk_id (risk_assessment_defaults now fresh r) = or_default (risk_id r) fresh"
  "alert_id (alert_defaults now fresh a) = or_default (alert_id a) fresh"
  "intervention_id (intervention_defaults now fresh i) = or_default (intervention_id i) fresh"
  by (simp_all add: user_defaults_def patient_defaults_def vital_defaults_def
        lab_result_defaults_def risk_assessment_defaults_def alert_defaults_def
        intervention_defaults_def)

lemma engine_rejects:
  assumes "out_of_range (row_of op) \<or> duplicate_key op s"
  shows "\<exists>e. run now fresh (statement_of op) s = Inl e"
proof (cases op)
  case (Create r)
  show ?thesis
  proof (cases r)
    case (UserRow u)
    with assms Create show ?thesis
      by (auto simp: Let_def insert_user_def user_unique_def unique_among_iff
            columns_after_defaults intro: refers_or_default)
  next
    case (PatientRow p)
    with assms Create show ?thesis
      by (auto simp: Let_def insert_patient_def patient_unique_def unique_among_iff
            columns_after_defaults intro: refers_or_default)
  next
    case (VitalRow v)
    with assms Create show ?thesis
      by (auto simp: Let_def insert_vital_def unique_among_iff checks_after_defaults
            columns_after_defaults intro: refers_or_default)
  next
    case (LabResultRow l)
    with assms Create show ?thesis
      by (auto simp: Let_def insert_lab_result_def unique_among_iff
            columns_after_defaults intro: refers_or_default)
  next
    case (RiskAssessmentRow x)
    with assms Create show ?thesis
      by (auto simp: Let_def insert_risk_assessment_def unique_among_iff
            checks_after_defaults columns_after_defaults intro: refers_or_default)
  next
    case (AlertRow a)
    with assms Create show ?thesis
      by (auto simp: Let_def insert_alert_def unique_among_iff
            columns_after_defaults intro: refers_or_default)
  next
    case (InterventionRow x)
    with assms Create show ?thesis
      by (auto simp: Let_def insert_intervention_def unique_among_iff
            columns_after_defaults intro: refers_or_default)
  qed
next
  case (Modify k r)
  show ?thesis
  proof (cases r)
    case (UserRow u)
    with assms Modify show ?thesis
      by (auto simp: Let_def update_user_def user_unique_def unique_among_iff
            split: option.splits)
  next
    case (PatientRow p)
    with assms Modify show ?thesis
      by (auto simp: Let_def update_patient_def patient_unique_def unique_among_iff
            split: option.splits)
  next
    case (VitalRow v)
    with assms Modify show ?thesis
      by (auto simp: Let_def update_vital_def checks_after_defaults)
  next
    case (RiskAssessmentRow x)
    with assms Modify show ?thesis
      by (auto simp: Let_def update_risk_assessment_def checks_after_defaults)
  qed (use assms Modify in simp_all)
qed

text \<open>
  C7. A create or update operation signals \<open>NotFound\<close> when a referenced patient or
  user (or the record to update) is not stored; otherwise it signals
  \<open>ConstraintViolation\<close> when a value is out of range or a unique key is duplicated;
  it signals no other error; and when it signals an error the store is unchanged.
\<close>

theorem domain_errors:
  "(not_found op s \<longrightarrow> perform now fresh op s = (Some NotFound, s))
   \<and> (\<not> not_found op s \<and> (out_of_range (row_of op) \<or> duplicate_key op s) \<longrightarrow>
        perform now fresh op s = (Some ConstraintViolation, s))
   \<and> (fst (perform now fresh op s) = None
        \<or> fst (perform now fresh op s) = Some NotFound
        \<or> fst (perform now fresh op s) = Some ConstraintViolation)
   \<and> (fst (perform now fresh op s) \<noteq> None \<longrightarrow> snd (perform now fresh op s) = s)"
proof (intro conjI impI)
  assume "\<not> not_found op s \<and> (out_of_range (row_of op) \<or> duplicate_key op s)"
  then show "perform now fresh op s = (Some ConstraintViolation, s)"
    using engine_rejects [of op s now fresh] by (auto simp: perform_def)
qed (auto simp: perform_def split: sum.splits)

theorem domain_errors_witness:
  "not_found (Create (VitalRow (pulse 8 72))) clinic
   \<and> perform 0 61 (Create (VitalRow (pulse 8 72))) clinic = (Some NotFound, clinic)
   \<and> \<not> not_found (Create (VitalRow (pulse 7 301))) clinic
   \<and> out_of_range (row_of (Create (VitalRow (pulse 7 301))))
   \<and> perform 0 61 (Create (VitalRow (pulse 7 301))) clinic = (Some ConstraintViolation, clinic)
   \<and> \<not> not_found (Create (UserRow alice2)) clinic
   \<and> duplicate_key (Create (UserRow alice2)) clinic
   \<and> perform 0 61 (Create (UserRow alice2)) clinic = (Some ConstraintViolation, clinic)
   \<and> fst (perform 0 61 (Create (VitalRow (pulse 7 72))) clinic) = None"
proof -
  have 1: "not_found (Create (VitalRow (pulse 8 72))) clinic
      \<and> \<not> not_found (Create (VitalRow (pulse 7 301))) clinic
      \<and> out_of_range (row_of (Create (VitalRow (pulse 7 301))))
      \<and> \<not> not_found (Create (UserRow alice2)) clinic
      \<and> duplicate_key (Create (UserRow alice2)) clinic"
    by (simp add: refers_def vital_defs sql_defs example_defs clinic_defs)
  have 2: "fst (perform 0 61 (Create (VitalRow (pulse 7 72))) clinic) = None"
    by (simp add: perform_def refers_def Let_def vital_defs sql_defs example_defs clinic_defs)
  show ?thesis
    using domain_errors [of "Create (VitalRow (pulse 8 72))" clinic 0 61]
      domain_errors [of "Create (VitalRow (pulse 7 301))" clinic 0 61]
      domain_errors [of "Create (UserRow alice2)" clinic 0 61] 1 2
    by auto
qed

end
